theory Spec2Isabelle
  imports Main "HOL-Library.Word"
begin

unbundle bit_operations_syntax

section \<open>Data model\<close>

text \<open>
  The endpoint of \<^verbatim>\<open>include/mqtt/endpoint.hpp\<close> works on bytes: \<^verbatim>\<open>std::string\<close> and
  \<^verbatim>\<open>std::vector<char>\<close> are byte lists, \<^verbatim>\<open>std::uint16_t\<close> is a 16-bit word whose
  \<open>+\<close> wraps around, \<^verbatim>\<open>std::size_t\<close> counters are natural numbers (the decoder
  throws long before 64 bits are exhausted). Isabelle rejects a name that ends in an
  underscore, and the names of record fields are global, so every data member and accessor
  \<^verbatim>\<open>m\<close> of a C++ class or struct is written \<open>m'\<close> (\<^verbatim>\<open>store_\<close> is \<open>store_'\<close>,
  \<^verbatim>\<open>packet_id\<close> of the store is \<open>packet_id'\<close>).
\<close>

type_synonym byte = "8 word"
type_synonym bytes = "byte list"
type_synonym packet_id_t = "16 word"

text \<open>The exceptions thrown by the endpoint, as values.\<close>

datatype error =
    protocol_error
  | remaining_length_error
  | utf8string_length_error
  | utf8string_contents_error
  | will_message_length_error
  | password_length_error

text \<open>\<^verbatim>\<open>boost::system::error_code\<close>, as far as the code tells its values apart.\<close>

datatype error_code = success | eof | connection_reset | operation_aborted | other_error

subsection \<open>Helpers of headers that are not among the sources\<close>

text \<open>
  Modelled from the spec: \<^verbatim>\<open>mqtt/fixed_header.hpp\<close> is missing. The spec lists the
  control packet kinds in protocol order and puts the kind in the high nibble of the
  first byte, the flags in the low nibble.
\<close>

datatype control_packet_type =
    CONNECT | CONNACK | PUBLISH | PUBACK | PUBREC | PUBREL | PUBCOMP
  | SUBSCRIBE | SUBACK | UNSUBSCRIBE | UNSUBACK | PINGREQ | PINGRESP | DISCONNECT

fun type_code :: "control_packet_type \<Rightarrow> byte" where
  "type_code CONNECT = 1"
| "type_code CONNACK = 2"
| "type_code PUBLISH = 3"
| "type_code PUBACK = 4"
| "type_code PUBREC = 5"
| "type_code PUBREL = 6"
| "type_code PUBCOMP = 7"
| "type_code SUBSCRIBE = 8"
| "type_code SUBACK = 9"
| "type_code UNSUBSCRIBE = 10"
| "type_code UNSUBACK = 11"
| "type_code PINGREQ = 12"
| "type_code PINGRESP = 13"
| "type_code DISCONNECT = 14"

definition make_fixed_header :: "control_packet_type \<Rightarrow> byte \<Rightarrow> byte" where
  "make_fixed_header t flags = push_bit 4 (type_code t) OR flags"

text \<open>
  Modelled from the spec: \<^verbatim>\<open>mqtt/qos.hpp\<close> and \<^verbatim>\<open>mqtt/publish.hpp\<close> are missing.
  QoS levels are 0, 1, 2; in a PUBLISH fixed header DUP is bit 3, QoS bits 2-1, RETAIN
  bit 0.
\<close>

definition at_most_once :: byte where "at_most_once = 0"
definition at_least_once :: byte where "at_least_once = 1"
definition exactly_once :: byte where "exactly_once = 2"

definition get_qos :: "byte \<Rightarrow> byte" where
  "get_qos fixed_header = drop_bit 1 (fixed_header AND 0b00000110)"

definition is_dup :: "byte \<Rightarrow> bool" where
  "is_dup fixed_header = (fixed_header AND 0b00001000 \<noteq> 0)"

definition is_retain :: "byte \<Rightarrow> bool" where
  "is_retain fixed_header = (fixed_header AND 0b00000001 \<noteq> 0)"

text \<open>
  Modelled from the spec: \<^verbatim>\<open>mqtt/remaining_length.hpp\<close> is missing. The remaining
  length is a little-endian base-128 integer of 1 to 4 bytes in minimum-length form, the
  high bit of each byte being the continuation flag; 268,435,455 is the largest encodable
  value, and the model reports a larger size as \<open>remaining_length_error\<close>.
\<close>

function remaining_bytes_of :: "nat \<Rightarrow> bytes" where
  "remaining_bytes_of n =
     (if n < 128 then [of_nat n]
      else (of_nat (n mod 128) OR 0b10000000) # remaining_bytes_of (n div 128))"
  by pat_completeness auto
termination
  by (relation "measure id") auto

definition remaining_bytes :: "nat \<Rightarrow> error + bytes" where
  "remaining_bytes n =
     (if n > 268435455 then Inl remaining_length_error else Inr (remaining_bytes_of n))"

text \<open>
  Modelled from the spec: \<^verbatim>\<open>mqtt/encoded_length.hpp\<close> and
  \<^verbatim>\<open>mqtt/utf8encoded_strings.hpp\<close> are missing. A string is framed by a 2-byte
  big-endian length; a length above 65535 is rejected. The check of the contents
  (\<^verbatim>\<open>utf8string::is_valid_contents\<close>) is a parameter \<open>is_valid_contents\<close> of every
  function that calls it.
\<close>

definition encoded_length :: "bytes \<Rightarrow> bytes" where
  "encoded_length str = [of_nat (length str div 256), of_nat (length str)]"

definition is_valid_length :: "bytes \<Rightarrow> bool" where
  "is_valid_length str = (length str \<le> 0xffff)"

text \<open>
  Modelled from the spec: \<^verbatim>\<open>mqtt/will.hpp\<close>, \<^verbatim>\<open>mqtt/connect_flags.hpp\<close>,
  \<^verbatim>\<open>mqtt/session_present.hpp\<close> and \<^verbatim>\<open>mqtt/connect_return_code.hpp\<close> are missing.
  A will is (topic, message, retain, QoS). The connect flags byte of MQTT 3.1.1, to which
  the spec demands strict conformance: clean session is bit 1 (as \<^verbatim>\<open>send_connect\<close>
  itself writes it), will flag bit 2, will QoS bits 4-3, will retain bit 5, password
  bit 6, user name bit 7. Session present is bit 0 of the first CONNACK byte, and the
  return code of an accepted connection is 0.
\<close>

record will =
  topic' :: bytes
  message' :: bytes
  retain' :: bool
  qos' :: byte

definition will_flag :: byte where "will_flag = 0b00000100"
definition will_retain :: byte where "will_retain = 0b00100000"
definition password_flag :: byte where "password_flag = 0b01000000"
definition user_name_flag :: byte where "user_name_flag = 0b10000000"

definition has_clean_session :: "byte \<Rightarrow> bool" where
  "has_clean_session v = (v AND 0b00000010 \<noteq> 0)"
definition has_will_flag :: "byte \<Rightarrow> bool" where
  "has_will_flag v = (v AND will_flag \<noteq> 0)"
definition has_will_retain :: "byte \<Rightarrow> bool" where
  "has_will_retain v = (v AND will_retain \<noteq> 0)"
definition has_password_flag :: "byte \<Rightarrow> bool" where
  "has_password_flag v = (v AND password_flag \<noteq> 0)"
definition has_user_name_flag :: "byte \<Rightarrow> bool" where
  "has_user_name_flag v = (v AND user_name_flag \<noteq> 0)"
definition will_qos :: "byte \<Rightarrow> byte" where
  "will_qos v = drop_bit 3 (v AND 0b00011000)"
definition set_will_qos :: "byte \<Rightarrow> byte \<Rightarrow> byte" where
  "set_will_qos v q = v OR push_bit 3 (q AND 0b00000011)"

definition is_session_present :: "byte \<Rightarrow> bool" where
  "is_session_present v = (v AND 0b00000001 \<noteq> 0)"

definition accepted :: byte where "accepted = 0"

subsection \<open>The in-flight store\<close>

text \<open>
  \<^verbatim>\<open>struct store\<close>: \<open>buf'\<close> is the shared buffer (\<open>None\<close> for \<^verbatim>\<open>nullptr\<close>),
  \<open>ptr'\<close> the offset of the packet's first byte in it, \<open>size'\<close> the packet's length.
\<close>

record store =
  packet_id' :: packet_id_t
  expected_control_packet_type' :: control_packet_type
  buf' :: "bytes option"
  ptr' :: nat
  size' :: nat

text \<open>The bytes \<^verbatim>\<open>as::buffer(ptr, size)\<close> denotes.\<close>

definition buffer :: "bytes \<Rightarrow> nat \<Rightarrow> nat \<Rightarrow> bytes" where
  "buffer b p n = take n (drop p b)"

definition stored_bytes :: "store \<Rightarrow> bytes" where
  "stored_bytes e = (case buf' e of None \<Rightarrow> [] | Some b \<Rightarrow> buffer b (ptr' e) (size' e))"

text \<open>
  \<^verbatim>\<open>mi_store\<close> is a multi-index container: sequenced (insertion order), unique on
  the key (packet id, expected type), non-unique on the packet id. It is the list of its
  elements in sequence order. \<^verbatim>\<open>emplace\<close> appends unless the unique key is taken.
\<close>

definition emplace :: "store \<Rightarrow> store list \<Rightarrow> store list" where
  "emplace e st =
     (if \<exists>x \<in> set st. packet_id' x = packet_id' e
           \<and> expected_control_packet_type' x = expected_control_packet_type' e
      then st else st @ [e])"

text \<open>\<^verbatim>\<open>idx.erase(r.first, r.second)\<close> on the \<^verbatim>\<open>equal_range\<close> of a key.\<close>

definition erase_key :: "packet_id_t \<Rightarrow> control_packet_type \<Rightarrow> store list \<Rightarrow> store list" where
  "erase_key pid t st =
     filter (\<lambda>x. \<not> (packet_id' x = pid \<and> expected_control_packet_type' x = t)) st"

subsection \<open>What the endpoint does to the outside\<close>

text \<open>
  Every \<^verbatim>\<open>as::write\<close> on the socket and every call of a user handler is recorded, in
  order, in the \<open>trace\<close> of the endpoint.
\<close>

datatype event =
    Write bytes
  | H_close
  | H_error error_code
  | H_connect bytes "bytes option" "bytes option" "will option" bool "16 word"
  | H_connack bool byte
  | H_publish byte "packet_id_t option" bytes bytes
  | H_puback packet_id_t
  | H_pubrec packet_id_t
  | H_pubcomp packet_id_t
  | H_suback packet_id_t "byte option list"
  | H_unsuback packet_id_t

text \<open>
  The members of \<^verbatim>\<open>class endpoint\<close>. A handler member \<open>h_x_\<close> is \<open>True\<close> when a
  handler is set (\<^verbatim>\<open>if (h_x_) h_x_(...)\<close>).
\<close>

record endpoint =
  connected_' :: bool
  client_id_' :: bytes
  clean_session_' :: bool
  will_' :: "will option"
  buf_' :: byte
  fixed_header_' :: byte
  remaining_length_multiplier_' :: nat
  remaining_length_' :: nat
  payload_' :: bytes
  h_connect_' :: bool
  h_connack_' :: bool
  h_publish_' :: bool
  h_puback_' :: bool
  h_pubrec_' :: bool
  h_pubcomp_' :: bool
  h_suback_' :: bool
  h_unsuback_' :: bool
  user_name_' :: "bytes option"
  password_' :: "bytes option"
  store_' :: "store list"
  packet_id_master_' :: packet_id_t
  trace :: "event list"

definition as_write :: "bytes \<Rightarrow> 'a endpoint_scheme \<Rightarrow> 'a endpoint_scheme" where
  "as_write bs s = s\<lparr>trace := trace s @ [Write bs]\<rparr>"

definition call :: "bool \<Rightarrow> event \<Rightarrow> 'a endpoint_scheme \<Rightarrow> 'a endpoint_scheme" where
  "call h ev s = (if h then s\<lparr>trace := trace s @ [ev]\<rparr> else s)"

subsection \<open>The send buffer\<close>

text \<open>
  \<^verbatim>\<open>class send_buffer\<close>: the buffer starts as \<^verbatim>\<open>payload_position_ = 5\<close> zero
  bytes, the body is appended, and \<^verbatim>\<open>finalize\<close> writes the fixed header and the
  remaining length right before the body. It yields the buffer, the offset of the
  packet in it and the packet's length.
\<close>

definition payload_position_' :: nat where "payload_position_' = 5"

definition send_buffer :: bytes where
  "send_buffer = replicate payload_position_' 0"

definition finalize :: "bytes \<Rightarrow> byte \<Rightarrow> error + (bytes \<times> nat \<times> nat)" where
  "finalize sb fixed_header =
     (case remaining_bytes (length sb - payload_position_') of
        Inl e \<Rightarrow> Inl e
      | Inr rb \<Rightarrow>
          let start_position = payload_position_' - length rb - 1;
              sb1 = sb[start_position := fixed_header];
              sb2 = take (start_position + 1) sb1 @ rb
                    @ drop (start_position + 1 + length rb) sb1
          in Inr (sb2, start_position, length sb2 - start_position))"

definition push_packet_id :: "bytes \<Rightarrow> packet_id_t \<Rightarrow> bytes" where
  "push_packet_id sb pid = sb @ [ucast (drop_bit 8 pid), ucast (pid AND 0xff)]"


section \<open>Sending\<close>

text \<open>
  Each \<^verbatim>\<open>send_x\<close> builds the body in a fresh send buffer, finalizes it with the fixed
  header and writes the packet to the socket. An exception leaves the function at once:
  the result is \<open>Inl\<close> of the error. \<^verbatim>\<open>send_conack\<close> is left out: it hands the
  pointer and the size to \<^verbatim>\<open>as::write\<close> without \<^verbatim>\<open>as::buffer\<close>, and nothing in the
  endpoint calls it.
\<close>

definition send_connect ::
  "(bytes \<Rightarrow> bool) \<Rightarrow> 16 word \<Rightarrow> 'a endpoint_scheme \<Rightarrow> error + 'a endpoint_scheme" where
  "send_connect is_valid_contents keep_alive_sec s =
     (let sb = send_buffer;
          sb = sb @ [0x00, 0x04, 0x4D, 0x51, 0x54, 0x54, 0x04];
          connect_flags_position = length sb;
          initial_value = (if clean_session_' s then 0b00000010 else 0);
          sb = sb @ [initial_value];
          sb = sb @ [ucast (drop_bit 8 keep_alive_sec)];
          sb = sb @ [ucast (keep_alive_sec AND 0xff)]
      in if \<not> is_valid_length (client_id_' s) then Inl utf8string_length_error
         else if \<not> is_valid_contents (client_id_' s) then Inl utf8string_contents_error
         else
           let sb = sb @ encoded_length (client_id_' s);
               sb = sb @ client_id_' s;
               r1 = (case will_' s of
                       None \<Rightarrow> Inr sb
                     | Some w \<Rightarrow>
                         let c = sb ! connect_flags_position;
                             c = c OR will_flag;
                             c = (if retain' w then c OR will_retain else c);
                             c = set_will_qos c (qos' w);
                             sb = sb[connect_flags_position := c]
                         in if \<not> is_valid_length (topic' w) then Inl utf8string_length_error
                            else if \<not> is_valid_contents (topic' w)
                            then Inl utf8string_contents_error
                            else
                              let sb = sb @ encoded_length (topic' w);
                                  sb = sb @ topic' w
                              in if length (message' w) > 0xffff
                                 then Inl will_message_length_error
                                 else Inr (sb @ encoded_length (message' w) @ message' w));
               r2 = (case r1 of
                       Inl e \<Rightarrow> Inl e
                     | Inr sb \<Rightarrow>
                         (case user_name_' s of
                            None \<Rightarrow> Inr sb
                          | Some str \<Rightarrow>
                              let c = sb ! connect_flags_position;
                                  sb = sb[connect_flags_position := c OR user_name_flag]
                              in if \<not> is_valid_length str then Inl utf8string_length_error
                                 else if \<not> is_valid_contents str
                                 then Inl utf8string_contents_error
                                 else Inr (sb @ encoded_length str @ str)));
               r3 = (case r2 of
                       Inl e \<Rightarrow> Inl e
                     | Inr sb \<Rightarrow>
                         (case password_' s of
                            None \<Rightarrow> Inr sb
                          | Some str \<Rightarrow>
                              let c = sb ! connect_flags_position;
                                  sb = sb[connect_flags_position := c OR password_flag]
                              in if length str > 0xffff then Inl password_length_error
                                 else Inr (sb @ encoded_length str @ str)))
           in case r3 of
                Inl e \<Rightarrow> Inl e
              | Inr sb \<Rightarrow>
                  (case finalize sb (make_fixed_header CONNECT 0) of
                     Inl e \<Rightarrow> Inl e
                   | Inr (sb, p, n) \<Rightarrow> Inr (as_write (buffer sb p n) s)))"

text \<open>
  \<^verbatim>\<open>send_publish\<close> takes the QoS as a \<^verbatim>\<open>std::uint16_t\<close>; the flags are a
  \<^verbatim>\<open>std::uint8_t\<close>. For a QoS above 0 the buffer is finalized a second time with
  the DUP bit set, after the write, and stored.
\<close>

definition send_publish ::
  "(bytes \<Rightarrow> bool) \<Rightarrow> bytes \<Rightarrow> 16 word \<Rightarrow> bool \<Rightarrow> packet_id_t \<Rightarrow> bytes
     \<Rightarrow> 'a endpoint_scheme \<Rightarrow> error + 'a endpoint_scheme" where
  "send_publish is_valid_contents topic_name qos retain packet_id payload s =
     (let sb = send_buffer
      in if \<not> is_valid_length topic_name then Inl utf8string_length_error
         else if \<not> is_valid_contents topic_name then Inl utf8string_contents_error
         else
           let sb = sb @ encoded_length topic_name;
               sb = sb @ topic_name;
               sb = (if qos = ucast at_least_once \<or> qos = ucast exactly_once
                     then push_packet_id sb packet_id else sb);
               sb = sb @ payload;
               flags = (0 :: byte);
               flags = (if retain then flags OR 0b00000001 else flags);
               flags = flags OR ucast (push_bit 1 qos)
           in case finalize sb (make_fixed_header PUBLISH flags) of
                Inl e \<Rightarrow> Inl e
              | Inr (sb, p, n) \<Rightarrow>
                  (let s = as_write (buffer sb p n) s
                   in if qos > 0 then
                       (let flags = flags OR 0b00001000
                        in (case finalize sb (make_fixed_header PUBLISH flags) of
                              Inl e \<Rightarrow> Inl e
                            | Inr (sb, p, n) \<Rightarrow>
                                Inr (s\<lparr>store_' := emplace
                                       \<lparr>packet_id' = packet_id,
                                        expected_control_packet_type' =
                                          (if qos = ucast at_least_once then PUBACK else PUBREC),
                                        buf' = Some sb, ptr' = p, size' = n\<rparr> (store_' s)\<rparr>)))
                     else Inr s))"

definition send_puback :: "packet_id_t \<Rightarrow> 'a endpoint_scheme \<Rightarrow> error + 'a endpoint_scheme" where
  "send_puback packet_id s =
     (let sb = push_packet_id send_buffer packet_id
      in case finalize sb (make_fixed_header PUBACK 0b0000) of
           Inl e \<Rightarrow> Inl e
         | Inr (sb, p, n) \<Rightarrow> Inr (as_write (buffer sb p n) s))"

definition send_pubrec :: "packet_id_t \<Rightarrow> 'a endpoint_scheme \<Rightarrow> error + 'a endpoint_scheme" where
  "send_pubrec packet_id s =
     (let sb = push_packet_id send_buffer packet_id
      in case finalize sb (make_fixed_header PUBREC 0b0000) of
           Inl e \<Rightarrow> Inl e
         | Inr (sb, p, n) \<Rightarrow> Inr (as_write (buffer sb p n) s))"

definition send_pubrel :: "packet_id_t \<Rightarrow> 'a endpoint_scheme \<Rightarrow> error + 'a endpoint_scheme" where
  "send_pubrel packet_id s =
     (let sb = push_packet_id send_buffer packet_id
      in case finalize sb (make_fixed_header PUBREL 0b0010) of
           Inl e \<Rightarrow> Inl e
         | Inr (sb, p, n) \<Rightarrow>
             let s = as_write (buffer sb p n) s
             in Inr (s\<lparr>store_' := emplace
                      \<lparr>packet_id' = packet_id, expected_control_packet_type' = PUBCOMP,
                       buf' = Some sb, ptr' = p, size' = n\<rparr> (store_' s)\<rparr>))"

definition send_pubcomp :: "packet_id_t \<Rightarrow> 'a endpoint_scheme \<Rightarrow> error + 'a endpoint_scheme" where
  "send_pubcomp packet_id s =
     (let sb = push_packet_id send_buffer packet_id
      in case finalize sb (make_fixed_header PUBCOMP 0b0000) of
           Inl e \<Rightarrow> Inl e
         | Inr (sb, p, n) \<Rightarrow> Inr (as_write (buffer sb p n) s))"

text \<open>
  The loops over \<^verbatim>\<open>params\<close> in \<^verbatim>\<open>send_subscribe\<close>, \<^verbatim>\<open>send_unsubscribe\<close>
  and \<^verbatim>\<open>send_suback\<close>.
\<close>

fun subscribe_params ::
  "(bytes \<Rightarrow> bool) \<Rightarrow> (bytes \<times> byte) list \<Rightarrow> bytes \<Rightarrow> error + bytes" where
  "subscribe_params is_valid_contents [] sb = Inr sb"
| "subscribe_params is_valid_contents (e # params) sb =
     (if \<not> is_valid_length (fst e) then Inl utf8string_length_error
      else if \<not> is_valid_contents (fst e) then Inl utf8string_contents_error
      else subscribe_params is_valid_contents params
             (sb @ encoded_length (fst e) @ fst e @ [snd e]))"

fun unsubscribe_params :: "(bytes \<Rightarrow> bool) \<Rightarrow> bytes list \<Rightarrow> bytes \<Rightarrow> error + bytes" where
  "unsubscribe_params is_valid_contents [] sb = Inr sb"
| "unsubscribe_params is_valid_contents (e # params) sb =
     (if \<not> is_valid_length e then Inl utf8string_length_error
      else if \<not> is_valid_contents e then Inl utf8string_contents_error
      else unsubscribe_params is_valid_contents params (sb @ encoded_length e @ e))"

text \<open>A store element without buffer: \<^verbatim>\<open>store_.emplace(packet_id, type)\<close>.\<close>

definition store2 :: "packet_id_t \<Rightarrow> control_packet_type \<Rightarrow> store" where
  "store2 pid t =
     \<lparr>packet_id' = pid, expected_control_packet_type' = t, buf' = None, ptr' = 0, size' = 0\<rparr>"

definition send_subscribe ::
  "(bytes \<Rightarrow> bool) \<Rightarrow> (bytes \<times> byte) list \<Rightarrow> packet_id_t
     \<Rightarrow> 'a endpoint_scheme \<Rightarrow> error + 'a endpoint_scheme" where
  "send_subscribe is_valid_contents params packet_id s =
     (let sb = push_packet_id send_buffer packet_id
      in case subscribe_params is_valid_contents params sb of
           Inl e \<Rightarrow> Inl e
         | Inr sb \<Rightarrow>
             (case finalize sb (make_fixed_header SUBSCRIBE 0b0010) of
                Inl e \<Rightarrow> Inl e
              | Inr (sb, p, n) \<Rightarrow>
                  let s = s\<lparr>store_' := emplace (store2 packet_id SUBACK) (store_' s)\<rparr>
                  in Inr (as_write (buffer sb p n) s)))"

definition send_suback ::
  "byte list \<Rightarrow> packet_id_t \<Rightarrow> 'a endpoint_scheme \<Rightarrow> error + 'a endpoint_scheme" where
  "send_suback params packet_id s =
     (let sb = push_packet_id send_buffer packet_id;
          sb = sb @ params
      in case finalize sb (make_fixed_header SUBACK 0b0000) of
           Inl e \<Rightarrow> Inl e
         | Inr (sb, p, n) \<Rightarrow>
             let s = s\<lparr>store_' := emplace (store2 packet_id SUBACK) (store_' s)\<rparr>
             in Inr (as_write (buffer sb p n) s))"

definition send_unsubscribe ::
  "(bytes \<Rightarrow> bool) \<Rightarrow> bytes list \<Rightarrow> packet_id_t
     \<Rightarrow> 'a endpoint_scheme \<Rightarrow> error + 'a endpoint_scheme" where
  "send_unsubscribe is_valid_contents params packet_id s =
     (let sb = push_packet_id send_buffer packet_id
      in case unsubscribe_params is_valid_contents params sb of
           Inl e \<Rightarrow> Inl e
         | Inr sb \<Rightarrow>
             (case finalize sb (make_fixed_header UNSUBSCRIBE 0b0010) of
                Inl e \<Rightarrow> Inl e
              | Inr (sb, p, n) \<Rightarrow>
                  let s = s\<lparr>store_' := emplace (store2 packet_id UNSUBACK) (store_' s)\<rparr>
                  in Inr (as_write (buffer sb p n) s)))"

definition send_unsuback :: "packet_id_t \<Rightarrow> 'a endpoint_scheme \<Rightarrow> error + 'a endpoint_scheme" where
  "send_unsuback packet_id s =
     (let sb = push_packet_id send_buffer packet_id
      in case finalize sb (make_fixed_header UNSUBACK 0b0010) of
           Inl e \<Rightarrow> Inl e
         | Inr (sb, p, n) \<Rightarrow>
             let s = s\<lparr>store_' := emplace (store2 packet_id UNSUBACK) (store_' s)\<rparr>
             in Inr (as_write (buffer sb p n) s))"

definition send_pingreq :: "'a endpoint_scheme \<Rightarrow> error + 'a endpoint_scheme" where
  "send_pingreq s =
     (case finalize send_buffer (make_fixed_header PINGREQ 0b0000) of
        Inl e \<Rightarrow> Inl e
      | Inr (sb, p, n) \<Rightarrow> Inr (as_write (buffer sb p n) s))"

definition send_pingresp :: "'a endpoint_scheme \<Rightarrow> error + 'a endpoint_scheme" where
  "send_pingresp s =
     (case finalize send_buffer (make_fixed_header PINGRESP 0b0000) of
        Inl e \<Rightarrow> Inl e
      | Inr (sb, p, n) \<Rightarrow> Inr (as_write (buffer sb p n) s))"

definition send_disconnect :: "'a endpoint_scheme \<Rightarrow> error + 'a endpoint_scheme" where
  "send_disconnect s =
     (case finalize send_buffer (make_fixed_header DISCONNECT 0b0000) of
        Inl e \<Rightarrow> Inl e
      | Inr (sb, p, n) \<Rightarrow> Inr ((as_write (buffer sb p n) s)\<lparr>connected_' := False\<rparr>))"


section \<open>Packet identifiers\<close>

definition is_unique_packet_id :: "'a endpoint_scheme \<Rightarrow> packet_id_t \<Rightarrow> bool" where
  "is_unique_packet_id s packet_id =
     (if packet_id = 0 then False
      else \<not> (\<exists>x \<in> set (store_' s). packet_id' x = packet_id))"

text \<open>
  \<^verbatim>\<open>do { ++packet_id_master_; } while (!is_unique_packet_id(packet_id_master_));\<close>
  The loop has no bound, so the function is partial: \<open>None\<close> is the loop that never
  ends.
\<close>

partial_function (option) create_unique_packet_id ::
  "'a endpoint_scheme \<Rightarrow> (packet_id_t \<times> 'a endpoint_scheme) option" where
  "create_unique_packet_id s =
     (let s = s\<lparr>packet_id_master_' := packet_id_master_' s + 1\<rparr>
      in if \<not> is_unique_packet_id s (packet_id_master_' s)
         then create_unique_packet_id s
         else Some (packet_id_master_' s, s))"

section \<open>The public interface\<close>

text \<open>
  The functions that allocate the packet id themselves return \<open>None\<close> when the
  allocation does not return, otherwise the exception or the packet id and the new state.
\<close>

definition with_packet_id ::
  "packet_id_t \<Rightarrow> error + 'a endpoint_scheme \<Rightarrow> error + packet_id_t \<times> 'a endpoint_scheme" where
  "with_packet_id packet_id r = (case r of Inl e \<Rightarrow> Inl e | Inr s \<Rightarrow> Inr (packet_id, s))"

definition publish_at_most_once ::
  "(bytes \<Rightarrow> bool) \<Rightarrow> bytes \<Rightarrow> bytes \<Rightarrow> bool
     \<Rightarrow> 'a endpoint_scheme \<Rightarrow> error + 'a endpoint_scheme" where
  "publish_at_most_once is_valid_contents topic_name contents retain s =
     send_publish is_valid_contents topic_name (ucast at_most_once) retain 0 contents s"

definition publish_at_least_once ::
  "(bytes \<Rightarrow> bool) \<Rightarrow> bytes \<Rightarrow> bytes \<Rightarrow> bool
     \<Rightarrow> 'a endpoint_scheme \<Rightarrow> (error + packet_id_t \<times> 'a endpoint_scheme) option" where
  "publish_at_least_once is_valid_contents topic_name contents retain s =
     (case create_unique_packet_id s of
        None \<Rightarrow> None
      | Some (packet_id, s) \<Rightarrow>
          Some (with_packet_id packet_id
            (send_publish is_valid_contents topic_name (ucast at_least_once) retain
               packet_id contents s)))"

definition publish_exactly_once ::
  "(bytes \<Rightarrow> bool) \<Rightarrow> bytes \<Rightarrow> bytes \<Rightarrow> bool
     \<Rightarrow> 'a endpoint_scheme \<Rightarrow> (error + packet_id_t \<times> 'a endpoint_scheme) option" where
  "publish_exactly_once is_valid_contents topic_name contents retain s =
     (case create_unique_packet_id s of
        None \<Rightarrow> None
      | Some (packet_id, s) \<Rightarrow>
          Some (with_packet_id packet_id
            (send_publish is_valid_contents topic_name (ucast exactly_once) retain
               packet_id contents s)))"

definition publish ::
  "(bytes \<Rightarrow> bool) \<Rightarrow> bytes \<Rightarrow> bytes \<Rightarrow> byte \<Rightarrow> bool
     \<Rightarrow> 'a endpoint_scheme \<Rightarrow> (error + packet_id_t \<times> 'a endpoint_scheme) option" where
  "publish is_valid_contents topic_name contents qos retain s =
     (case create_unique_packet_id s of
        None \<Rightarrow> None
      | Some (packet_id, s) \<Rightarrow>
          Some (with_packet_id packet_id
            (send_publish is_valid_contents topic_name (ucast qos) retain
               packet_id contents s)))"

text \<open>
  \<^verbatim>\<open>subscribe(topic_name, qos, args...)\<close> and \<^verbatim>\<open>unsubscribe(topic_name, args...)\<close>:
  the variadic \<open>args\<close> are the list of the further pairs or topics, and \<open>params\<close> is
  the first one followed by them.
\<close>

definition subscribe ::
  "(bytes \<Rightarrow> bool) \<Rightarrow> bytes \<Rightarrow> byte \<Rightarrow> (bytes \<times> byte) list
     \<Rightarrow> 'a endpoint_scheme \<Rightarrow> (error + packet_id_t \<times> 'a endpoint_scheme) option" where
  "subscribe is_valid_contents topic_name qos args s =
     (case create_unique_packet_id s of
        None \<Rightarrow> None
      | Some (packet_id, s) \<Rightarrow>
          Some (with_packet_id packet_id
            (send_subscribe is_valid_contents ((topic_name, qos) # args) packet_id s)))"

definition unsubscribe ::
  "(bytes \<Rightarrow> bool) \<Rightarrow> bytes \<Rightarrow> bytes list
     \<Rightarrow> 'a endpoint_scheme \<Rightarrow> (error + packet_id_t \<times> 'a endpoint_scheme) option" where
  "unsubscribe is_valid_contents topic_name args s =
     (case create_unique_packet_id s of
        None \<Rightarrow> None
      | Some (packet_id, s) \<Rightarrow>
          Some (with_packet_id packet_id
            (send_unsubscribe is_valid_contents (topic_name # args) packet_id s)))"

definition disconnect :: "'a endpoint_scheme \<Rightarrow> error + 'a endpoint_scheme" where
  "disconnect s =
     (if connected_' s
      then (case send_disconnect s of
              Inl e \<Rightarrow> Inl e
            | Inr s \<Rightarrow> Inr (s\<lparr>connected_' := False\<rparr>))
      else Inr s)"

text \<open>
  The overloads with a manually set packet id (suffix \<open>_id\<close>): the result is the
  returned \<^verbatim>\<open>bool\<close> and the new state.
\<close>

definition with_true :: "error + 'a endpoint_scheme \<Rightarrow> error + bool \<times> 'a endpoint_scheme" where
  "with_true r = (case r of Inl e \<Rightarrow> Inl e | Inr s \<Rightarrow> Inr (True, s))"

definition publish_at_least_once_id ::
  "(bytes \<Rightarrow> bool) \<Rightarrow> packet_id_t \<Rightarrow> bytes \<Rightarrow> bytes \<Rightarrow> bool
     \<Rightarrow> 'a endpoint_scheme \<Rightarrow> error + bool \<times> 'a endpoint_scheme" where
  "publish_at_least_once_id is_valid_contents packet_id topic_name contents retain s =
     (if is_unique_packet_id s packet_id
      then with_true (send_publish is_valid_contents topic_name (ucast at_least_once) retain
                        packet_id contents s)
      else Inr (False, s))"

definition publish_exactly_once_id ::
  "(bytes \<Rightarrow> bool) \<Rightarrow> packet_id_t \<Rightarrow> bytes \<Rightarrow> bytes \<Rightarrow> bool
     \<Rightarrow> 'a endpoint_scheme \<Rightarrow> error + bool \<times> 'a endpoint_scheme" where
  "publish_exactly_once_id is_valid_contents packet_id topic_name contents retain s =
     (if is_unique_packet_id s packet_id
      then with_true (send_publish is_valid_contents topic_name (ucast exactly_once) retain
                        packet_id contents s)
      else Inr (False, s))"

definition publish_id ::
  "(bytes \<Rightarrow> bool) \<Rightarrow> packet_id_t \<Rightarrow> bytes \<Rightarrow> bytes \<Rightarrow> byte \<Rightarrow> bool
     \<Rightarrow> 'a endpoint_scheme \<Rightarrow> error + bool \<times> 'a endpoint_scheme" where
  "publish_id is_valid_contents packet_id topic_name contents qos retain s =
     (if is_unique_packet_id s packet_id
      then with_true (send_publish is_valid_contents topic_name (ucast qos) retain
                        packet_id contents s)
      else Inr (False, s))"

definition subscribe_id ::
  "(bytes \<Rightarrow> bool) \<Rightarrow> packet_id_t \<Rightarrow> bytes \<Rightarrow> byte \<Rightarrow> (bytes \<times> byte) list
     \<Rightarrow> 'a endpoint_scheme \<Rightarrow> error + bool \<times> 'a endpoint_scheme" where
  "subscribe_id is_valid_contents packet_id topic_name qos args s =
     (if is_unique_packet_id s packet_id
      then with_true (send_subscribe is_valid_contents ((topic_name, qos) # args) packet_id s)
      else Inr (False, s))"

definition unsubscribe_id ::
  "(bytes \<Rightarrow> bool) \<Rightarrow> packet_id_t \<Rightarrow> bytes \<Rightarrow> bytes list
     \<Rightarrow> 'a endpoint_scheme \<Rightarrow> error + bool \<times> 'a endpoint_scheme" where
  "unsubscribe_id is_valid_contents packet_id topic_name args s =
     (if is_unique_packet_id s packet_id
      then with_true (send_unsubscribe is_valid_contents (topic_name # args) packet_id s)
      else Inr (False, s))"


section \<open>Receiving\<close>

subsection \<open>Reading a control packet from the stream\<close>

text \<open>
  The chain of \<^verbatim>\<open>as::async_read\<close> calls and their completion handlers reads the
  stream byte by byte. The stream is the list \<open>inp\<close> of the bytes that arrive before it
  ends. A read has three outcomes: an exception, the end of the stream
  (\<^verbatim>\<open>handle_close_or_error\<close> reports it and the chain stops), or the call of
  \<^verbatim>\<open>handle_payload\<close>, here with the unread rest of the stream and the state in which
  it is called.
\<close>

datatype 's reading = Throw error | Closed | Payload bytes 's

text \<open>\<^verbatim>\<open>payload_.resize(n)\<close>.\<close>

definition resize :: "bytes \<Rightarrow> nat \<Rightarrow> bytes" where
  "resize v n = take n v @ replicate (n - length v) 0"

fun handle_remaining_length :: "bytes \<Rightarrow> 'a endpoint_scheme \<Rightarrow> 'a endpoint_scheme reading" where
  "handle_remaining_length inp s =
     (let s = s\<lparr>remaining_length_' :=
                 remaining_length_' s
                 + unat (buf_' s AND 0b01111111) * remaining_length_multiplier_' s\<rparr>;
          s = s\<lparr>remaining_length_multiplier_' := remaining_length_multiplier_' s * 128\<rparr>
      in if remaining_length_multiplier_' s > 128 * 128 * 128 then Throw remaining_length_error
         else if buf_' s AND 0b10000000 \<noteq> 0 then
           (case inp of
              [] \<Rightarrow> Closed
            | b # inp \<Rightarrow> handle_remaining_length inp (s\<lparr>buf_' := b\<rparr>))
         else
           (let s = s\<lparr>payload_' := resize (payload_' s) (remaining_length_' s)\<rparr>
            in if remaining_length_' s = 0 then Payload inp s
               else if length inp < remaining_length_' s then Closed
               else Payload (drop (remaining_length_' s) inp)
                      (s\<lparr>payload_' := take (remaining_length_' s) inp\<rparr>)))"

definition handle_control_packet_type ::
  "bytes \<Rightarrow> 'a endpoint_scheme \<Rightarrow> 'a endpoint_scheme reading" where
  "handle_control_packet_type inp s =
     (let s = s\<lparr>fixed_header_' := buf_' s\<rparr>;
          s = s\<lparr>remaining_length_' := 0\<rparr>;
          s = s\<lparr>remaining_length_multiplier_' := 1\<rparr>
      in case inp of
           [] \<Rightarrow> Closed
         | b # inp \<Rightarrow> handle_remaining_length inp (s\<lparr>buf_' := b\<rparr>))"

definition async_read_control_packet_type ::
  "bytes \<Rightarrow> 'a endpoint_scheme \<Rightarrow> 'a endpoint_scheme reading" where
  "async_read_control_packet_type inp s =
     (case inp of
        [] \<Rightarrow> Closed
      | b # inp \<Rightarrow> handle_control_packet_type inp (s\<lparr>buf_' := b\<rparr>))"

subsection \<open>The handlers of the control packets\<close>

definition make_uint16_t :: "byte \<Rightarrow> byte \<Rightarrow> 16 word" where
  "make_uint16_t b1 b2 = push_bit 8 (ucast b1 AND 0xff) OR (ucast b2 AND 0xff)"

text \<open>\<^verbatim>\<open>std::string(payload_.data() + i, n)\<close>.\<close>

definition string_at :: "bytes \<Rightarrow> nat \<Rightarrow> nat \<Rightarrow> bytes" where
  "string_at v i n = take n (drop i v)"

text \<open>
  \<^verbatim>\<open>handle_connect\<close>: the block of the \<^verbatim>\<open>if\<close> that compares the protocol name
  and level is empty, and \<^verbatim>\<open>throw protocol_error()\<close> is the statement after it.
\<close>

definition handle_connect :: "'a endpoint_scheme \<Rightarrow> error + 'a endpoint_scheme" where
  "handle_connect s =
     (let empty_block =
            (if remaining_length_' s < 10 \<or>
                payload_' s ! 0 \<noteq> 0x00 \<or>
                payload_' s ! 1 \<noteq> 0x04 \<or>
                payload_' s ! 2 \<noteq> 0x4D \<or>
                payload_' s ! 3 \<noteq> 0x51 \<or>
                payload_' s ! 4 \<noteq> 0x54 \<or>
                payload_' s ! 5 \<noteq> 0x54 \<or>
                payload_' s ! 6 \<noteq> 0x04
             then () else ())
      in Inl protocol_error)"

text \<open>
  The statements of \<^verbatim>\<open>handle_connect\<close> after the \<^verbatim>\<open>throw\<close>, which control
  never reaches, from \<^verbatim>\<open>char byte8 = payload_[i++]\<close> with \<open>i = 7\<close> on. The will
  message is built with \<^verbatim>\<open>topic_name_length\<close>, as the source has it.
\<close>

definition handle_connect_will ::
  "byte \<Rightarrow> nat \<Rightarrow> 'a endpoint_scheme \<Rightarrow> error + (will option \<times> nat)" where
  "handle_connect_will byte8 i s =
     (if has_will_flag byte8 then
        (let topic_name_length = make_uint16_t (payload_' s ! i) (payload_' s ! (i + 1));
             i = i + 2
         in if remaining_length_' s < i + unat topic_name_length
            then Inl remaining_length_error
            else
              let topic_name = string_at (payload_' s) i (unat topic_name_length);
                  i = i + unat topic_name_length;
                  will_message_length =
                    make_uint16_t (payload_' s ! i) (payload_' s ! (i + 1));
                  i = i + 2
              in if remaining_length_' s < i + unat will_message_length
                 then Inl remaining_length_error
                 else
                   let will_message = string_at (payload_' s) i (unat topic_name_length);
                       i = i + unat will_message_length
                   in Inr (Some \<lparr>topic' = topic_name, message' = will_message,
                                 retain' = has_will_retain byte8, qos' = will_qos byte8\<rparr>, i))
      else Inr (None, i))"

definition handle_connect_string ::
  "bool \<Rightarrow> nat \<Rightarrow> 'a endpoint_scheme \<Rightarrow> error + (bytes option \<times> nat)" where
  "handle_connect_string flag i s =
     (if flag then
        (let n = make_uint16_t (payload_' s ! i) (payload_' s ! (i + 1));
             i = i + 2
         in if remaining_length_' s < i + unat n then Inl remaining_length_error
            else Inr (Some (string_at (payload_' s) i (unat n)), i + unat n))
      else Inr (None, i))"

definition handle_connect_unreached :: "'a endpoint_scheme \<Rightarrow> error + 'a endpoint_scheme" where
  "handle_connect_unreached s =
     (let i = 7;
          byte8 = payload_' s ! i;
          i = i + 1;
          keep_alive = make_uint16_t (payload_' s ! i) (payload_' s ! (i + 1));
          i = i + 2
      in if remaining_length_' s < i + 2 then Inl remaining_length_error
         else
           let client_id_length = make_uint16_t (payload_' s ! i) (payload_' s ! (i + 1));
               i = i + 2
           in if remaining_length_' s < i + unat client_id_length
              then Inl remaining_length_error
              else
                let client_id = string_at (payload_' s) i (unat client_id_length);
                    i = i + unat client_id_length;
                    clean_session = has_clean_session byte8
                in (case handle_connect_will byte8 i s of
                      Inl e \<Rightarrow> Inl e
                    | Inr (w, i) \<Rightarrow>
                        (case handle_connect_string (has_user_name_flag byte8) i s of
                           Inl e \<Rightarrow> Inl e
                         | Inr (user_name, i) \<Rightarrow>
                             (case handle_connect_string (has_password_flag byte8) i s of
                                Inl e \<Rightarrow> Inl e
                              | Inr (password, i) \<Rightarrow>
                                  Inr (call (h_connect_' s)
                                         (H_connect client_id user_name password w
                                            clean_session keep_alive) s)))))"

text \<open>
  The loop of \<^verbatim>\<open>handle_connack\<close> over the sequenced index: an element with a buffer
  is written to the socket and kept, an element without is erased. \<open>kept\<close> are the
  elements before the iterator.
\<close>

fun connack_resend ::
  "store list \<Rightarrow> store list \<Rightarrow> 'a endpoint_scheme \<Rightarrow> 'a endpoint_scheme" where
  "connack_resend [] kept s = s\<lparr>store_' := kept\<rparr>"
| "connack_resend (it # rest) kept s =
     (if buf' it \<noteq> None
      then connack_resend rest (kept @ [it])
             (as_write (buffer (the (buf' it)) (ptr' it) (size' it)) s)
      else connack_resend rest kept s)"

definition handle_connack :: "'a endpoint_scheme \<Rightarrow> error + 'a endpoint_scheme" where
  "handle_connack s =
     (if remaining_length_' s \<noteq> 2 then Inl remaining_length_error
      else
        let s = (if payload_' s ! 1 = accepted
                 then (if clean_session_' s then s\<lparr>store_' := []\<rparr>
                       else connack_resend (store_' s) [] s)
                 else s);
            session_present = is_session_present (payload_' s ! 0)
        in Inr (call (h_connack_' s) (H_connack session_present (payload_' s ! 1)) s))"

definition handle_publish :: "'a endpoint_scheme \<Rightarrow> error + 'a endpoint_scheme" where
  "handle_publish s =
     (if remaining_length_' s < 2 then Inl remaining_length_error
      else
        let i = 0;
            topic_name_length = make_uint16_t (payload_' s ! i) (payload_' s ! (i + 1));
            i = i + 2
        in if remaining_length_' s < i + unat topic_name_length
           then Inl remaining_length_error
           else
             let topic_name = string_at (payload_' s) i (unat topic_name_length);
                 i = i + unat topic_name_length;
                 qos = get_qos (fixed_header_' s);
                 r = (if qos = at_most_once then Inr (None, i, s)
                      else if qos = at_least_once then
                        (if remaining_length_' s < i + 2 then Inl remaining_length_error
                         else
                           let packet_id =
                                 make_uint16_t (payload_' s ! i) (payload_' s ! (i + 1));
                               i = i + 2
                           in (case send_puback packet_id s of
                                 Inl e \<Rightarrow> Inl e
                               | Inr s \<Rightarrow> Inr (Some packet_id, i, s)))
                      else if qos = exactly_once then
                        (if remaining_length_' s < i + 2 then Inl remaining_length_error
                         else
                           let packet_id =
                                 make_uint16_t (payload_' s ! i) (payload_' s ! (i + 1));
                               i = i + 2
                           in (case send_pubrec packet_id s of
                                 Inl e \<Rightarrow> Inl e
                               | Inr s \<Rightarrow> Inr (Some packet_id, i, s)))
                      else Inr (None, i, s))
             in (case r of
                   Inl e \<Rightarrow> Inl e
                 | Inr (packet_id, i, s) \<Rightarrow>
                     let contents = string_at (payload_' s) i (length (payload_' s) - i)
                     in Inr (call (h_publish_' s)
                               (H_publish (fixed_header_' s) packet_id topic_name contents) s)))"

definition handle_puback :: "'a endpoint_scheme \<Rightarrow> error + 'a endpoint_scheme" where
  "handle_puback s =
     (if remaining_length_' s \<noteq> 2 then Inl remaining_length_error
      else
        let packet_id = make_uint16_t (payload_' s ! 0) (payload_' s ! 1);
            s = s\<lparr>store_' := erase_key packet_id PUBACK (store_' s)\<rparr>
        in Inr (call (h_puback_' s) (H_puback packet_id) s))"

definition handle_pubrec :: "'a endpoint_scheme \<Rightarrow> error + 'a endpoint_scheme" where
  "handle_pubrec s =
     (if remaining_length_' s \<noteq> 2 then Inl remaining_length_error
      else
        let packet_id = make_uint16_t (payload_' s ! 0) (payload_' s ! 1);
            s = s\<lparr>store_' := erase_key packet_id PUBREC (store_' s)\<rparr>
        in (case send_pubrel packet_id s of
              Inl e \<Rightarrow> Inl e
            | Inr s \<Rightarrow> Inr (call (h_pubrec_' s) (H_pubrec packet_id) s)))"

definition handle_pubrel :: "'a endpoint_scheme \<Rightarrow> error + 'a endpoint_scheme" where
  "handle_pubrel s =
     (if remaining_length_' s \<noteq> 2 then Inl remaining_length_error
      else
        let packet_id = make_uint16_t (payload_' s ! 0) (payload_' s ! 1)
        in send_pubcomp packet_id s)"

definition handle_pubcomp :: "'a endpoint_scheme \<Rightarrow> error + 'a endpoint_scheme" where
  "handle_pubcomp s =
     (if remaining_length_' s \<noteq> 2 then Inl remaining_length_error
      else
        let packet_id = make_uint16_t (payload_' s ! 0) (payload_' s ! 1);
            s = s\<lparr>store_' := erase_key packet_id PUBCOMP (store_' s)\<rparr>
        in Inr (call (h_pubcomp_' s) (H_pubcomp packet_id) s))"

definition handle_suback :: "'a endpoint_scheme \<Rightarrow> error + 'a endpoint_scheme" where
  "handle_suback s =
     (if remaining_length_' s < 2 then Inl remaining_length_error
      else
        let packet_id = make_uint16_t (payload_' s ! 0) (payload_' s ! 1);
            s = s\<lparr>store_' := erase_key packet_id SUBACK (store_' s)\<rparr>;
            results = map (\<lambda>b. if b AND 0b10000000 \<noteq> 0 then None else Some b)
                        (drop 2 (payload_' s))
        in Inr (call (h_suback_' s) (H_suback packet_id results) s))"

definition handle_unsuback :: "'a endpoint_scheme \<Rightarrow> error + 'a endpoint_scheme" where
  "handle_unsuback s =
     (if remaining_length_' s \<noteq> 2 then Inl remaining_length_error
      else
        let packet_id = make_uint16_t (payload_' s ! 0) (payload_' s ! 1);
            s = s\<lparr>store_' := erase_key packet_id UNSUBACK (store_' s)\<rparr>
        in Inr (call (h_unsuback_' s) (H_unsuback packet_id) s))"

section \<open>The client\<close>

text \<open>
  \<^verbatim>\<open>boost::asio::deadline_timer\<close>, the timer collaborator: \<open>expiry\<close> is the
  absolute expiry time in milliseconds, \<open>waiting\<close> tells whether an
  \<^verbatim>\<open>async_wait\<close> is pending. \<^verbatim>\<open>expires_from_now\<close> sets the expiry relative to
  the time \<open>now\<close> of the call and cancels a pending wait.
\<close>

record timer =
  expiry :: nat
  waiting :: bool

definition expires_from_now :: "nat \<Rightarrow> nat \<Rightarrow> timer \<Rightarrow> timer" where
  "expires_from_now now ms t = \<lparr>expiry = now + ms, waiting = False\<rparr>"

definition async_wait :: "timer \<Rightarrow> timer" where
  "async_wait t = t\<lparr>waiting := True\<rparr>"

definition cancel :: "timer \<Rightarrow> timer" where
  "cancel t = t\<lparr>waiting := False\<rparr>"

text \<open>
  \<^verbatim>\<open>class client\<close> of \<^verbatim>\<open>include/mqtt/client.hpp\<close> derives from the endpoint; its
  own members extend the endpoint's. Every function of the endpoint, applied to a
  client, leaves these members as they are.
\<close>

record client = endpoint +
  tim_' :: timer
  keep_alive_sec_' :: "16 word"
  ping_duration_ms_' :: nat
  h_close_' :: bool
  h_error_' :: bool

definition set_keep_alive_sec_ping_ms ::
  "16 word \<Rightarrow> nat \<Rightarrow> 'a client_scheme \<Rightarrow> 'a client_scheme" where
  "set_keep_alive_sec_ping_ms keep_alive_sec ping_ms c =
     (let c = (if ping_duration_ms_' c \<noteq> 0 \<and> connected_' c \<and> ping_ms = 0
               then c\<lparr>tim_' := cancel (tim_' c)\<rparr> else c);
          c = c\<lparr>keep_alive_sec_' := keep_alive_sec\<rparr>
      in c\<lparr>ping_duration_ms_' := ping_ms\<rparr>)"

definition set_keep_alive_sec :: "16 word \<Rightarrow> 'a client_scheme \<Rightarrow> 'a client_scheme" where
  "set_keep_alive_sec keep_alive_sec c =
     set_keep_alive_sec_ping_ms keep_alive_sec (unat keep_alive_sec * 1000 div 2) c"

definition handle_close :: "'a client_scheme \<Rightarrow> 'a client_scheme" where
  "handle_close c =
     (let c = (if ping_duration_ms_' c \<noteq> 0 then c\<lparr>tim_' := cancel (tim_' c)\<rparr> else c)
      in call (h_close_' c) H_close c)"

definition handle_error :: "error_code \<Rightarrow> 'a client_scheme \<Rightarrow> 'a client_scheme" where
  "handle_error ec c =
     (let c = (if ping_duration_ms_' c \<noteq> 0 then c\<lparr>tim_' := cancel (tim_' c)\<rparr> else c)
      in call (h_error_' c) (H_error ec) c)"

text \<open>
  \<^verbatim>\<open>handle_timer\<close>, the completion handler of the wait on \<^verbatim>\<open>tim_\<close>; \<open>now\<close> is
  the time at which it runs.
\<close>

definition handle_timer ::
  "nat \<Rightarrow> error_code \<Rightarrow> 'a client_scheme \<Rightarrow> error + 'a client_scheme" where
  "handle_timer now ec c =
     (if ec = success then
        (case send_pingreq c of
           Inl e \<Rightarrow> Inl e
         | Inr c \<Rightarrow>
             let c = c\<lparr>tim_' := expires_from_now now (ping_duration_ms_' c) (tim_' c)\<rparr>
             in Inr (c\<lparr>tim_' := async_wait (tim_' c)\<rparr>))
      else Inr c)"

text \<open>
  \<^verbatim>\<open>connect\<close>: the completion handler of \<^verbatim>\<open>as::async_connect\<close>, which runs at
  time \<open>now\<close> with the error code \<open>ec\<close>, then \<^verbatim>\<open>handshake_socket\<close> for a plain TCP
  socket. The close and error handlers of the base class are the client's
  \<open>handle_close\<close> and \<open>handle_error\<close> from here on, so
  \<^verbatim>\<open>base::handle_close_or_error(ec)\<close> runs one of them when \<open>ec\<close> is an error. The
  read that \<^verbatim>\<open>async_read_control_packet_type\<close> starts is a reading of the stream
  above.
\<close>

definition connect ::
  "(bytes \<Rightarrow> bool) \<Rightarrow> nat \<Rightarrow> error_code \<Rightarrow> 'a client_scheme \<Rightarrow> error + 'a client_scheme" where
  "connect is_valid_contents now ec c =
     (let c = (if ec = success then
                 (let c = c\<lparr>connected_' := True\<rparr>
                  in if ping_duration_ms_' c \<noteq> 0 then
                       (let c = c\<lparr>tim_' := expires_from_now now (ping_duration_ms_' c)
                                               (tim_' c)\<rparr>
                        in c\<lparr>tim_' := async_wait (tim_' c)\<rparr>)
                     else c)
               else c)
      in if ec \<noteq> success then
           (if ec = eof \<or> ec = connection_reset then Inr (handle_close c)
            else Inr (handle_error ec c))
         else send_connect is_valid_contents (keep_alive_sec_' c) c)"

text \<open>\<^verbatim>\<open>client::disconnect\<close>.\<close>

definition client_disconnect :: "'a client_scheme \<Rightarrow> error + 'a client_scheme" where
  "client_disconnect c =
     (if connected_' c then
        (let c = (if ping_duration_ms_' c \<noteq> 0 then c\<lparr>tim_' := cancel (tim_' c)\<rparr> else c)
         in disconnect c)
      else Inr c)"

text \<open>
  The states the constructors build. Members that the constructors leave uninitialised
  are 0 or empty here.
\<close>

definition new_endpoint :: "bool \<Rightarrow> endpoint" where
  "new_endpoint with_socket =
     \<lparr>connected_' = with_socket, client_id_' = [], clean_session_' = False, will_' = None,
      buf_' = 0, fixed_header_' = 0, remaining_length_multiplier_' = 0,
      remaining_length_' = 0, payload_' = [], h_connect_' = False, h_connack_' = False,
      h_publish_' = False, h_puback_' = False, h_pubrec_' = False, h_pubcomp_' = False,
      h_suback_' = False, h_unsuback_' = False, user_name_' = None, password_' = None,
      store_' = [], packet_id_master_' = 0, trace = []\<rparr>"

definition new_client :: client where
  "new_client =
     \<lparr>connected_' = False, client_id_' = [], clean_session_' = False, will_' = None,
      buf_' = 0, fixed_header_' = 0, remaining_length_multiplier_' = 0,
      remaining_length_' = 0, payload_' = [], h_connect_' = False, h_connack_' = False,
      h_publish_' = False, h_puback_' = False, h_pubrec_' = False, h_pubcomp_' = False,
      h_suback_' = False, h_unsuback_' = False, user_name_' = None, password_' = None,
      store_' = [], packet_id_master_' = 0, trace = [],
      tim_' = \<lparr>expiry = 0, waiting = False\<rparr>, keep_alive_sec_' = 0,
      ping_duration_ms_' = 0, h_close_' = False, h_error_' = False\<rparr>"


section \<open>Observations and concrete inputs\<close>

text \<open>The packets written to the socket, in order.\<close>

fun written_of :: "event list \<Rightarrow> bytes list" where
  "written_of [] = []"
| "written_of (Write bs # evs) = bs # written_of evs"
| "written_of (ev # evs) = written_of evs"

definition written :: "'a endpoint_scheme \<Rightarrow> bytes list" where
  "written s = written_of (trace s)"

text \<open>
  Modelled from the spec: the flags are the low nibble of the first byte of a packet, the
  kind is its high nibble (\<^verbatim>\<open>get_control_packet_type\<close> of the missing
  \<^verbatim>\<open>mqtt/fixed_header.hpp\<close>).
\<close>

definition low_nibble :: "byte \<Rightarrow> byte" where
  "low_nibble fixed_header = fixed_header AND 0b00001111"

definition get_control_packet_type :: "byte \<Rightarrow> byte" where
  "get_control_packet_type fixed_header = drop_bit 4 fixed_header"

text \<open>
  A v3.1.1 CONNECT packet with clean session, keep alive 0 and an empty client id, and
  the state of a server-side endpoint that has read it from the stream.
\<close>

definition connect_frame :: bytes where
  "connect_frame =
     [0x10, 0x0C, 0x00, 0x04, 0x4D, 0x51, 0x54, 0x54, 0x04, 0x02, 0x00, 0x00, 0x00, 0x00]"

definition connect_received :: endpoint where
  "connect_received =
     (new_endpoint True)\<lparr>buf_' := 0x0C, fixed_header_' := 0x10,
       remaining_length_multiplier_' := 128, remaining_length_' := 12,
       payload_' := [0x00, 0x04, 0x4D, 0x51, 0x54, 0x54, 0x04, 0x02, 0x00, 0x00, 0x00, 0x00]\<rparr>"

text \<open>The packet ids in a store, and the invariant of the claims on them.\<close>

definition packet_ids :: "store list \<Rightarrow> packet_id_t set" where
  "packet_ids st = packet_id' ` set st"

definition unique_nonzero_ids :: "store list \<Rightarrow> bool" where
  "unique_nonzero_ids st = (distinct (map packet_id' st) \<and> 0 \<notin> packet_ids st)"

text \<open>
  \<open>stored_under p st st'\<close>: the store \<open>st'\<close> is \<open>st\<close>, or \<open>st\<close> after the
  \<^verbatim>\<open>emplace\<close> of an element with packet id \<open>p\<close>. \<open>stores_fresh st p st'\<close>: the
  store \<open>st'\<close> is \<open>st\<close>, or \<open>st\<close> followed by one new element, whose packet id \<open>p\<close>
  is not 0 and not in \<open>st\<close>.
\<close>

definition stored_under :: "packet_id_t \<Rightarrow> store list \<Rightarrow> store list \<Rightarrow> bool" where
  "stored_under p st st' = (st' = st \<or> (\<exists>e. packet_id' e = p \<and> st' = emplace e st))"

definition stores_fresh :: "store list \<Rightarrow> packet_id_t \<Rightarrow> store list \<Rightarrow> bool" where
  "stores_fresh st p st' =
     (st' = st \<or> (\<exists>e. st' = st @ [e] \<and> packet_id' e = p \<and> p \<noteq> 0 \<and> p \<notin> packet_ids st))"

text \<open>A store that holds every nonzero packet id (65535 subscriptions without SUBACK).\<close>

definition full_store :: "store list" where
  "full_store = map (\<lambda>n. store2 (of_nat n) SUBACK) [1..<65536]"

text \<open>
  A packet on the wire: the fixed header, the remaining length, the body. The body and
  the flags of a PUBLISH, as \<^verbatim>\<open>send_publish\<close> builds them.
\<close>

definition frame :: "byte \<Rightarrow> bytes \<Rightarrow> bytes" where
  "frame fixed_header body = fixed_header # remaining_bytes_of (length body) @ body"

definition publish_body :: "bytes \<Rightarrow> 16 word \<Rightarrow> packet_id_t \<Rightarrow> bytes \<Rightarrow> bytes" where
  "publish_body topic_name qos packet_id payload =
     encoded_length topic_name @ topic_name
     @ (if qos = 1 \<or> qos = 2
        then [ucast (drop_bit 8 packet_id), ucast (packet_id AND 0xff)] else [])
     @ payload"

definition publish_flags :: "16 word \<Rightarrow> bool \<Rightarrow> byte" where
  "publish_flags qos retain = (if retain then 1 else 0) OR ucast (push_bit 1 qos)"

text \<open>
  The kinds of acknowledgement the store expects for a packet id, in store order, and the
  elements of the store under other packet ids.
\<close>

definition expected_for :: "packet_id_t \<Rightarrow> store list \<Rightarrow> control_packet_type list" where
  "expected_for p st = map expected_control_packet_type' (filter (\<lambda>x. packet_id' x = p) st)"

definition others :: "packet_id_t \<Rightarrow> store list \<Rightarrow> store list" where
  "others p st = filter (\<lambda>x. packet_id' x \<noteq> p) st"

text \<open>
  A server-side endpoint with a publish handler, the PUBLISH packet at QoS 2 with packet
  id 7, topic \<^verbatim>\<open>t\<close> and payload \<^verbatim>\<open>hi\<close>, and the state of the endpoint that has
  read this packet from the stream, with the trace \<open>tr\<close>.
\<close>

definition publish_endpoint :: endpoint where
  "publish_endpoint = (new_endpoint True)\<lparr>h_publish_' := True\<rparr>"

definition qos2_publish_frame :: bytes where
  "qos2_publish_frame = [0x34, 0x07, 0x00, 0x01, 0x74, 0x00, 0x07, 0x68, 0x69]"

definition qos2_publish_received :: "event list \<Rightarrow> endpoint" where
  "qos2_publish_received tr =
     publish_endpoint\<lparr>buf_' := 0x07, fixed_header_' := 0x34,
       remaining_length_multiplier_' := 128, remaining_length_' := 7,
       payload_' := [0x00, 0x01, 0x74, 0x00, 0x07, 0x68, 0x69], trace := tr\<rparr>"

text \<open>
  A client that has read an accepted CONNACK, with three elements in its store: a PUBLISH
  at QoS 1 with packet id 1 (stored with DUP), a SUBSCRIBE with packet id 2 (no bytes) and
  a PUBREL with packet id 3.
\<close>

definition connack_received :: "bool \<Rightarrow> endpoint" where
  "connack_received clean =
     (new_endpoint False)
       \<lparr>clean_session_' := clean, remaining_length_' := 2, payload_' := [0x00, 0x00],
        store_' :=
          [\<lparr>packet_id' = 1, expected_control_packet_type' = PUBACK,
            buf' = Some [0, 0, 0, 0x3A, 0x05, 0x00, 0x01, 0x74, 0x00, 0x01],
            ptr' = 3, size' = 7\<rparr>,
           store2 2 SUBACK,
           \<lparr>packet_id' = 3, expected_control_packet_type' = PUBCOMP,
            buf' = Some [0, 0, 0, 0x62, 0x02, 0x00, 0x03], ptr' = 3, size' = 4\<rparr>]\<rparr>"

text \<open>
  Running one operation after another, where an exception ends the run; and a client
  configured with a keep alive of 10 seconds and a ping interval of 1000 milliseconds.
\<close>

definition then_do :: "error + 'a \<Rightarrow> ('a \<Rightarrow> error + 'b) \<Rightarrow> error + 'b" where
  "then_do r f = (case r of Inl e \<Rightarrow> Inl e | Inr x \<Rightarrow> f x)"

definition keep_alive_client :: client where
  "keep_alive_client = set_keep_alive_sec_ping_ms 10 1000 new_client"

text \<open>
  A client-side endpoint with client id \<^verbatim>\<open>c\<close>, clean session and a will (topic
  \<^verbatim>\<open>t\<close>, message \<^verbatim>\<open>bye\<close>, QoS 0), the CONNECT packet it writes, and the state of a
  server-side endpoint with a connect handler that has read this packet.
\<close>

definition will_endpoint :: endpoint where
  "will_endpoint =
     (new_endpoint False)
       \<lparr>client_id_' := [0x63], clean_session_' := True,
        will_' := Some \<lparr>topic' = [0x74], message' = [0x62, 0x79, 0x65],
                       retain' = False, qos' = 0\<rparr>\<rparr>"

definition will_connect_frame :: bytes where
  "will_connect_frame =
     [0x10, 0x15, 0x00, 0x04, 0x4D, 0x51, 0x54, 0x54, 0x04, 0x06, 0x00, 0x00,
      0x00, 0x01, 0x63, 0x00, 0x01, 0x74, 0x00, 0x03, 0x62, 0x79, 0x65]"

definition will_connect_received :: endpoint where
  "will_connect_received =
     (new_endpoint True)
       \<lparr>buf_' := 0x15, fixed_header_' := 0x10, remaining_length_multiplier_' := 128,
        remaining_length_' := 21,
        payload_' := [0x00, 0x04, 0x4D, 0x51, 0x54, 0x54, 0x04, 0x06, 0x00, 0x00,
                      0x00, 0x01, 0x63, 0x00, 0x01, 0x74, 0x00, 0x03, 0x62, 0x79, 0x65],
        h_connect_' := True\<rparr>"

text \<open>
  An endpoint that sends a publish at QoS 2 with packet id 1 (topic \<^verbatim>\<open>t\<close>, payload
  \<^verbatim>\<open>hi\<close>): the elements the store holds for the PUBLISH (stored with DUP) and for the
  PUBREL, the endpoint with the store \<open>st\<close> and the trace \<open>tr\<close>, and its state after it
  has read an acknowledgement of two bytes for packet id 1 with the fixed header \<open>h\<close>.
\<close>

definition stored_publish :: store where
  "stored_publish =
     \<lparr>packet_id' = 1, expected_control_packet_type' = PUBREC,
      buf' = Some [0, 0, 0, 0x3C, 0x07, 0x00, 0x01, 0x74, 0x00, 0x01, 0x68, 0x69],
      ptr' = 3, size' = 9\<rparr>"

definition stored_pubrel :: store where
  "stored_pubrel =
     \<lparr>packet_id' = 1, expected_control_packet_type' = PUBCOMP,
      buf' = Some [0, 0, 0, 0x62, 0x02, 0x00, 0x01], ptr' = 3, size' = 4\<rparr>"

definition qos2_sender :: "store list \<Rightarrow> event list \<Rightarrow> endpoint" where
  "qos2_sender st tr = (new_endpoint True)\<lparr>store_' := st, trace := tr\<rparr>"

definition ack_received :: "byte \<Rightarrow> store list \<Rightarrow> event list \<Rightarrow> endpoint" where
  "ack_received h st tr =
     (new_endpoint True)
       \<lparr>buf_' := 0x02, fixed_header_' := h, remaining_length_multiplier_' := 128,
        remaining_length_' := 2, payload_' := [0x00, 0x01], store_' := st, trace := tr\<rparr>"

section \<open>Lemmas on the codec\<close>

declare remaining_bytes_of.simps [simp del]
declare handle_remaining_length.simps [simp del]

lemma remaining_bytes_of_small: "n < 128 \<Longrightarrow> remaining_bytes_of n = [of_nat n]"
  by (subst remaining_bytes_of.simps) simp

lemma remaining_bytes_of_step:
  "\<not> n < 128 \<Longrightarrow>
   remaining_bytes_of n
     = (of_nat (n mod 128) OR 0b10000000) # remaining_bytes_of (n div 128)"
  by (subst remaining_bytes_of.simps) simp

lemma remaining_bytes_of_nonempty: "0 < length (remaining_bytes_of n)"
  by (subst remaining_bytes_of.simps) simp

lemma remaining_bytes_of_length2: "n < 16384 \<Longrightarrow> length (remaining_bytes_of n) \<le> 2"
  by (cases "n < 128") (simp_all add: remaining_bytes_of_small remaining_bytes_of_step)

lemma remaining_bytes_of_length3: "n < 2097152 \<Longrightarrow> length (remaining_bytes_of n) \<le> 3"
proof (cases "n < 128")
  case True
  then show ?thesis by (simp add: remaining_bytes_of_small)
next
  case False
  assume "n < 2097152"
  then have "n div 128 < 16384" by simp
  from remaining_bytes_of_length2 [OF this] False show ?thesis
    by (simp add: remaining_bytes_of_step)
qed

lemma remaining_bytes_of_length4: "n < 268435456 \<Longrightarrow> length (remaining_bytes_of n) \<le> 4"
proof (cases "n < 128")
  case True
  then show ?thesis by (simp add: remaining_bytes_of_small)
next
  case False
  assume "n < 268435456"
  then have "n div 128 < 2097152" by simp
  from remaining_bytes_of_length3 [OF this] False show ?thesis
    by (simp add: remaining_bytes_of_step)
qed

text \<open>
  \<^verbatim>\<open>finalize\<close> puts the fixed header and the remaining length right before the
  body: the packet is the header, the remaining length and the body.
\<close>

lemma finalize_layout:
  assumes "0 < length rb" "length rb \<le> 4"
  shows "(let start_position = 5 - length rb - 1;
              sb1 = (replicate 5 0 @ body)[start_position := h];
              sb2 = take (start_position + 1) sb1 @ rb
                    @ drop (start_position + 1 + length rb) sb1
          in (sb2, start_position, length sb2 - start_position))
         = (replicate (4 - length rb) (0::byte) @ h # rb @ body, 4 - length rb,
            Suc (length rb + length body))"
proof -
  from assms consider "length rb = 1" | "length rb = 2" | "length rb = 3" | "length rb = 4"
    by linarith
  then show ?thesis
    by cases (simp_all add: Let_def eval_nat_numeral)
qed

lemma finalize_send_buffer:
  assumes "length body \<le> 268435455"
  shows "finalize (send_buffer @ body) h =
           Inr (replicate (4 - length (remaining_bytes_of (length body))) 0
                  @ h # remaining_bytes_of (length body) @ body,
                4 - length (remaining_bytes_of (length body)),
                Suc (length (remaining_bytes_of (length body)) + length body))"
proof -
  define rb where "rb = remaining_bytes_of (length body)"
  have l: "0 < length rb" "length rb \<le> 4"
    using remaining_bytes_of_nonempty remaining_bytes_of_length4 [of "length body"] assms
    by (simp_all add: rb_def)
  have r: "remaining_bytes (length body) = Inr rb"
    using assms by (simp add: remaining_bytes_def rb_def)
  show ?thesis
    unfolding finalize_def send_buffer_def payload_position_'_def
    using finalize_layout [OF l, of body h]
    by (simp add: r rb_def [symmetric] Let_def)
qed

lemma finalize_packet_id:
  "finalize (push_packet_id send_buffer packet_id) h
   = Inr (replicate 3 0 @ [h, 2, ucast (drop_bit 8 packet_id), ucast (packet_id AND 0xff)],
          3, 4)"
  unfolding push_packet_id_def
  by (subst finalize_send_buffer) (simp_all add: remaining_bytes_of_small)

lemma finalize_empty: "finalize send_buffer h = Inr (replicate 3 0 @ [h, 0], 3, 2)"
  using finalize_send_buffer [of "[]" h] by (simp add: remaining_bytes_of_small)

lemma finalize_layout_padded:
  assumes "length pad = 5" "0 < length rb" "length rb \<le> 4"
  shows "(let start_position = 5 - length rb - 1;
              sb1 = (pad @ body)[start_position := h];
              sb2 = take (start_position + 1) sb1 @ rb
                    @ drop (start_position + 1 + length rb) sb1
          in (sb2, start_position, length sb2 - start_position))
         = (take (4 - length rb) pad @ h # rb @ body, 4 - length rb,
            Suc (length rb + length body))"
proof -
  from assms(1) obtain a b c d e where pad: "pad = [a, b, c, d, e]"
    by (auto simp add: eval_nat_numeral length_Suc_conv)
  from assms(2,3) consider "length rb = 1" | "length rb = 2" | "length rb = 3" | "length rb = 4"
    by linarith
  then show ?thesis
    by cases (simp_all add: Let_def eval_nat_numeral pad)
qed

lemma finalize_padded:
  assumes "length pad = 5" "length body \<le> 268435455"
  shows "finalize (pad @ body) h
         = Inr (take (4 - length (remaining_bytes_of (length body))) pad
                  @ frame h body,
                4 - length (remaining_bytes_of (length body)), length (frame h body))"
proof -
  define rb where "rb = remaining_bytes_of (length body)"
  have l: "0 < length rb" "length rb \<le> 4"
    using remaining_bytes_of_nonempty remaining_bytes_of_length4 [of "length body"] assms(2)
    by (simp_all add: rb_def)
  have r: "remaining_bytes (length (pad @ body) - 5) = Inr rb"
    using assms by (simp add: remaining_bytes_def rb_def)
  show ?thesis
    unfolding finalize_def payload_position_'_def r
    using finalize_layout_padded [OF assms(1) l, of body h]
    by (simp add: rb_def [symmetric] Let_def frame_def)
qed

lemma finalize_frame:
  assumes "length body \<le> 268435455"
  shows "finalize (send_buffer @ body) h
         = Inr (replicate (4 - length (remaining_bytes_of (length body))) 0 @ frame h body,
                4 - length (remaining_bytes_of (length body)), length (frame h body))"
  using finalize_padded [OF _ assms, of send_buffer h]
  by (simp add: send_buffer_def payload_position_'_def)

lemma finalize_again:
  assumes "length body \<le> 268435455"
  shows "finalize (replicate (4 - length (remaining_bytes_of (length body))) 0 @ frame h body) h'
         = Inr (replicate (4 - length (remaining_bytes_of (length body))) 0 @ frame h' body,
                4 - length (remaining_bytes_of (length body)), length (frame h' body))"
proof -
  define rb where "rb = remaining_bytes_of (length body)"
  have l: "0 < length rb" "length rb \<le> 4"
    using remaining_bytes_of_nonempty remaining_bytes_of_length4 [of "length body"] assms
    by (simp_all add: rb_def)
  have "replicate (4 - length rb) 0 @ frame h body
        = (replicate (4 - length rb) 0 @ h # rb) @ body"
    by (simp add: frame_def rb_def)
  moreover have "length (replicate (4 - length rb) (0::byte) @ h # rb) = 5"
    using l by simp
  ultimately show ?thesis
    using finalize_padded [OF _ assms, of "replicate (4 - length rb) 0 @ h # rb" h']
    by (simp add: rb_def [symmetric])
qed

lemma buffer_frame: "buffer (replicate k 0 @ fr) k (length fr) = fr"
  by (simp add: buffer_def)

lemma replicate3: "replicate 3 x = [x, x, x]"
  by (simp add: numeral_3_eq_3)

lemma make_fixed_header_dup:
  "make_fixed_header PUBLISH (flags OR 0b00001000) = make_fixed_header PUBLISH flags OR 0b00001000"
  by (simp add: make_fixed_header_def ac_simps)

lemma ff16: "(0xff :: 16 word) = mask 8"
  by (simp add: mask_eq_exp_minus_1)

lemma make_uint16_t_alt: "make_uint16_t a b = push_bit 8 (ucast a) OR ucast b"
  unfolding make_uint16_t_def ff16
  by (rule bit_word_eqI) (auto simp add: bit_simps dest: bit_imp_le_length)

lemma packet_id_bytes_of_make_uint16_t:
  "ucast (drop_bit 8 (make_uint16_t a b)) = a" "ucast (make_uint16_t a b AND 0xff) = b"
  unfolding make_uint16_t_alt ff16
  by (rule bit_word_eqI; auto simp add: bit_simps dest: bit_imp_le_length)+

lemma make_uint16_t_of_packet_id_bytes:
  "make_uint16_t (ucast (drop_bit 8 p)) (ucast (p AND 0xff)) = p"
  unfolding make_uint16_t_alt ff16
  by (rule bit_word_eqI) (auto simp add: bit_simps dest: bit_imp_le_length)

section \<open>What the send functions write\<close>

lemma send_puback_eq:
  "send_puback packet_id s
   = Inr (as_write [0x40, 0x02, ucast (drop_bit 8 packet_id), ucast (packet_id AND 0xff)] s)"
  by (simp add: send_puback_def finalize_packet_id make_fixed_header_def buffer_def)

lemma send_pubrec_eq:
  "send_pubrec packet_id s
   = Inr (as_write [0x50, 0x02, ucast (drop_bit 8 packet_id), ucast (packet_id AND 0xff)] s)"
  by (simp add: send_pubrec_def finalize_packet_id make_fixed_header_def buffer_def)

lemma send_pubrel_eq:
  "send_pubrel packet_id s
   = Inr ((as_write [0x62, 0x02, ucast (drop_bit 8 packet_id), ucast (packet_id AND 0xff)] s)
       \<lparr>store_' := emplace
          \<lparr>packet_id' = packet_id, expected_control_packet_type' = PUBCOMP,
           buf' = Some (replicate 3 0
                    @ [0x62, 0x02, ucast (drop_bit 8 packet_id), ucast (packet_id AND 0xff)]),
           ptr' = 3, size' = 4\<rparr> (store_' s)\<rparr>)"
  by (simp add: send_pubrel_def finalize_packet_id make_fixed_header_def buffer_def
      as_write_def)

lemma send_pubcomp_eq:
  "send_pubcomp packet_id s
   = Inr (as_write [0x70, 0x02, ucast (drop_bit 8 packet_id), ucast (packet_id AND 0xff)] s)"
  by (simp add: send_pubcomp_def finalize_packet_id make_fixed_header_def buffer_def)

lemma send_unsuback_eq:
  "send_unsuback packet_id s
   = Inr (as_write [0xB2, 0x02, ucast (drop_bit 8 packet_id), ucast (packet_id AND 0xff)]
            (s\<lparr>store_' := emplace (store2 packet_id UNSUBACK) (store_' s)\<rparr>))"
  by (simp add: send_unsuback_def finalize_packet_id make_fixed_header_def buffer_def)

lemma send_pingreq_eq: "send_pingreq s = Inr (as_write [0xC0, 0x00] s)"
  by (simp add: send_pingreq_def finalize_empty make_fixed_header_def buffer_def)

lemma send_pingresp_eq: "send_pingresp s = Inr (as_write [0xD0, 0x00] s)"
  by (simp add: send_pingresp_def finalize_empty make_fixed_header_def buffer_def)

lemma send_disconnect_eq:
  "send_disconnect s = Inr ((as_write [0xE0, 0x00] s)\<lparr>connected_' := False\<rparr>)"
  by (simp add: send_disconnect_def finalize_empty make_fixed_header_def buffer_def)

lemma send_publish_eq:
  assumes "is_valid_length topic_name" "ivc topic_name"
    and "length (publish_body topic_name qos packet_id payload) \<le> 268435455"
  shows "send_publish ivc topic_name qos retain packet_id payload s =
     Inr (let body = publish_body topic_name qos packet_id payload;
              h = make_fixed_header PUBLISH (publish_flags qos retain);
              s1 = as_write (frame h body) s
          in if qos > 0 then
               s1\<lparr>store_' := emplace
                   \<lparr>packet_id' = packet_id,
                    expected_control_packet_type' = (if qos = 1 then PUBACK else PUBREC),
                    buf' = Some (replicate (4 - length (remaining_bytes_of (length body))) 0
                                 @ frame (h OR 0b00001000) body),
                    ptr' = 4 - length (remaining_bytes_of (length body)),
                    size' = length (frame (h OR 0b00001000) body)\<rparr> (store_' s)\<rparr>
             else s1)"
proof -
  let ?body = "publish_body topic_name qos packet_id payload"
  have sb: "(if qos = ucast at_least_once \<or> qos = ucast exactly_once
             then push_packet_id ((send_buffer @ encoded_length topic_name) @ topic_name) packet_id
             else (send_buffer @ encoded_length topic_name) @ topic_name) @ payload
            = send_buffer @ ?body"
    by (simp add: publish_body_def push_packet_id_def at_least_once_def exactly_once_def)
  have fl: "(if retain then 0 OR 1 else 0) OR ucast (push_bit 1 qos) = publish_flags qos retain"
    by (simp add: publish_flags_def)
  show ?thesis
    unfolding send_publish_def Let_def sb fl
    by (simp add: assms finalize_frame finalize_again buffer_frame make_fixed_header_dup
        as_write_def at_least_once_def)
qed

section \<open>Packet identifiers and the store\<close>

lemma is_unique_packet_id_master [simp]:
  "is_unique_packet_id (s\<lparr>packet_id_master_' := m\<rparr>) p = is_unique_packet_id s p"
  by (simp add: is_unique_packet_id_def)

lemma is_unique_packet_id_iff:
  "is_unique_packet_id s p \<longleftrightarrow> p \<noteq> 0 \<and> p \<notin> packet_ids (store_' s)"
  by (auto simp add: is_unique_packet_id_def packet_ids_def)

lemma create_unique_packet_id_result:
  "create_unique_packet_id s = Some y \<Longrightarrow>
   is_unique_packet_id s (fst y) \<and> snd y = s\<lparr>packet_id_master_' := fst y\<rparr>"
proof (induction s y rule: create_unique_packet_id.raw_induct [rotated 1, consumes 1])
  case (1 f s y)
  let ?s = "s\<lparr>packet_id_master_' := packet_id_master_' s + 1\<rparr>"
  show ?case
  proof (cases "is_unique_packet_id ?s (packet_id_master_' ?s)")
    case True
    with 1(2) have "y = (packet_id_master_' ?s, ?s)" by (simp add: Let_def)
    with True show ?thesis by simp
  next
    case False
    with 1(2) have "f ?s = Some y" by (simp add: Let_def)
    from 1(1) [OF this] show ?thesis by simp
  qed
qed

lemma unat_minus_suc:
  fixes u m :: "16 word"
  assumes "u \<noteq> m"
  shows "unat (u - (m + 1)) = unat (u - m) - 1"
proof -
  from assms have "u - m \<noteq> 0" by simp
  then have "unat (u - m - 1) = unat (u - m) - 1" by (simp add: unat_minus_one)
  then show ?thesis by (simp add: algebra_simps)
qed

lemma create_unique_packet_id_returns:
  assumes "u \<noteq> 0" "u \<notin> packet_ids (store_' s)"
  shows "\<exists>y. create_unique_packet_id s = Some y"
  using assms(2)
proof (induction "unat (u - (packet_id_master_' s + 1))" arbitrary: s)
  case 0
  then have "u = packet_id_master_' s + 1" by (simp add: unat_eq_0)
  with 0 assms(1) show ?case
    by (subst create_unique_packet_id.simps)
      (simp add: Let_def is_unique_packet_id_iff)
next
  case (Suc n)
  let ?s = "s\<lparr>packet_id_master_' := packet_id_master_' s + 1\<rparr>"
  from Suc(2) have ne: "u \<noteq> packet_id_master_' s + 1" by auto
  have "unat (u - (packet_id_master_' ?s + 1)) = unat (u - (packet_id_master_' s + 1)) - 1"
    using unat_minus_suc [OF ne] by simp
  with Suc(2) have "n = unat (u - (packet_id_master_' ?s + 1))" by simp
  moreover from Suc(3) have "u \<notin> packet_ids (store_' ?s)" by simp
  ultimately have "\<exists>y. create_unique_packet_id ?s = Some y" by (rule Suc(1))
  then show ?case
    by (subst create_unique_packet_id.simps) (simp add: Let_def)
qed

lemma create_unique_packet_id_diverges:
  assumes "\<forall>u. u \<noteq> 0 \<longrightarrow> u \<in> packet_ids (store_' s)"
  shows "create_unique_packet_id s = None"
proof (cases "create_unique_packet_id s")
  case None
  then show ?thesis .
next
  case (Some y)
  from create_unique_packet_id_result [OF this] assms show ?thesis
    by (auto simp add: is_unique_packet_id_iff)
qed

lemma card_nonzero_ids: "card (UNIV - {0 :: 16 word}) = 65535"
  by (simp add: card_Diff_singleton card_word)

lemma unused_id_exists:
  assumes "card (packet_ids st) < 65535"
  shows "\<exists>u. u \<noteq> 0 \<and> u \<notin> packet_ids st"
proof (rule ccontr)
  assume "\<not> ?thesis"
  then have "UNIV - {0} \<subseteq> packet_ids st" by auto
  moreover have "finite (packet_ids st)" by (simp add: packet_ids_def)
  ultimately have "card (UNIV - {0 :: 16 word}) \<le> card (packet_ids st)"
    by (rule card_mono [rotated])
  with assms show False by (simp add: card_nonzero_ids)
qed

lemma emplace_fresh:
  assumes "packet_id' e \<notin> packet_ids st"
  shows "emplace e st = st @ [e]"
proof -
  from assms have "\<forall>x \<in> set st. packet_id' x \<noteq> packet_id' e"
    unfolding packet_ids_def by (metis imageI)
  then show ?thesis by (simp add: emplace_def)
qed

lemma unique_nonzero_ids_append:
  "unique_nonzero_ids st \<Longrightarrow> packet_id' e \<noteq> 0 \<Longrightarrow> packet_id' e \<notin> packet_ids st
   \<Longrightarrow> unique_nonzero_ids (st @ [e])"
  by (auto simp add: unique_nonzero_ids_def packet_ids_def)

lemma stored_under_same: "stored_under p st st"
  by (simp add: stored_under_def)

lemma stored_under_emplace: "packet_id' e = p \<Longrightarrow> stored_under p st (emplace e st)"
  by (auto simp add: stored_under_def)

lemma send_publish_store:
  assumes "send_publish is_valid_contents topic_name qos retain packet_id payload s = Inr s'"
  shows "stored_under packet_id (store_' s) (store_' s')"
  using assms
  by (auto simp add: send_publish_def Let_def as_write_def
      split: if_splits sum.splits prod.splits
      intro!: stored_under_same stored_under_emplace)

lemma send_subscribe_store:
  assumes "send_subscribe is_valid_contents params packet_id s = Inr s'"
  shows "stored_under packet_id (store_' s) (store_' s')"
  using assms
  by (auto simp add: send_subscribe_def Let_def as_write_def store2_def
      split: if_splits sum.splits prod.splits
      intro!: stored_under_same stored_under_emplace)

lemma send_unsubscribe_store:
  assumes "send_unsubscribe is_valid_contents params packet_id s = Inr s'"
  shows "stored_under packet_id (store_' s) (store_' s')"
  using assms
  by (auto simp add: send_unsubscribe_def Let_def as_write_def store2_def
      split: if_splits sum.splits prod.splits
      intro!: stored_under_same stored_under_emplace)

lemma stores_fresh_if_unique:
  assumes "is_unique_packet_id s p" "stored_under p (store_' s) st'"
  shows "stores_fresh (store_' s) p st'"
  using assms
  by (auto simp add: stored_under_def stores_fresh_def is_unique_packet_id_iff emplace_fresh)

lemma stores_fresh_same: "stores_fresh st p st"
  by (simp add: stores_fresh_def)

lemma stores_fresh_unique_nonzero_ids:
  "unique_nonzero_ids st \<Longrightarrow> stores_fresh st p st' \<Longrightarrow> unique_nonzero_ids st'"
  by (auto simp add: stores_fresh_def unique_nonzero_ids_append)

lemma with_true_eq: "with_true r = Inr (b, s') \<longleftrightarrow> b \<and> r = Inr s'"
  by (auto simp add: with_true_def split: sum.splits)

lemma with_packet_id_eq: "with_packet_id p r = Inr (q, s') \<longleftrightarrow> q = p \<and> r = Inr s'"
  by (auto simp add: with_packet_id_def split: sum.splits)

lemma manual_refuses:
  assumes "p = 0 \<or> p \<in> packet_ids (store_' s)"
  shows "publish_at_least_once_id ivc p topic_name contents retain s = Inr (False, s)"
    and "publish_exactly_once_id ivc p topic_name contents retain s = Inr (False, s)"
    and "publish_id ivc p topic_name contents qos retain s = Inr (False, s)"
    and "subscribe_id ivc p topic_name sqos sargs s = Inr (False, s)"
    and "unsubscribe_id ivc p topic_name uargs s = Inr (False, s)"
  using assms
  by (auto simp add: publish_at_least_once_id_def publish_exactly_once_id_def publish_id_def
      subscribe_id_def unsubscribe_id_def is_unique_packet_id_iff)

lemma manual_stores_fresh:
  shows "publish_at_least_once_id ivc p topic_name contents retain s = Inr (b, s')
         \<Longrightarrow> stores_fresh (store_' s) p (store_' s')"
    and "publish_exactly_once_id ivc p topic_name contents retain s = Inr (b, s')
         \<Longrightarrow> stores_fresh (store_' s) p (store_' s')"
    and "publish_id ivc p topic_name contents qos retain s = Inr (b, s')
         \<Longrightarrow> stores_fresh (store_' s) p (store_' s')"
    and "subscribe_id ivc p topic_name sqos sargs s = Inr (b, s')
         \<Longrightarrow> stores_fresh (store_' s) p (store_' s')"
    and "unsubscribe_id ivc p topic_name uargs s = Inr (b, s')
         \<Longrightarrow> stores_fresh (store_' s) p (store_' s')"
  by (auto simp add: publish_at_least_once_id_def publish_exactly_once_id_def publish_id_def
      subscribe_id_def unsubscribe_id_def with_true_eq stores_fresh_same
      stores_fresh_if_unique
      split: if_splits
      dest!: send_publish_store send_subscribe_store send_unsubscribe_store)

lemma auto_stores_fresh:
  shows "publish_at_least_once ivc topic_name contents retain s = Some (Inr (p, s'))
         \<Longrightarrow> stores_fresh (store_' s) p (store_' s')"
    and "publish_exactly_once ivc topic_name contents retain s = Some (Inr (p, s'))
         \<Longrightarrow> stores_fresh (store_' s) p (store_' s')"
    and "publish ivc topic_name contents qos retain s = Some (Inr (p, s'))
         \<Longrightarrow> stores_fresh (store_' s) p (store_' s')"
    and "subscribe ivc topic_name sqos sargs s = Some (Inr (p, s'))
         \<Longrightarrow> stores_fresh (store_' s) p (store_' s')"
    and "unsubscribe ivc topic_name uargs s = Some (Inr (p, s'))
         \<Longrightarrow> stores_fresh (store_' s) p (store_' s')"
  by (auto simp add: publish_at_least_once_def publish_exactly_once_def publish_def
      subscribe_def unsubscribe_def with_packet_id_eq
      split: option.splits
      dest!: create_unique_packet_id_result send_publish_store send_subscribe_store
        send_unsubscribe_store)
    (erule (1) stores_fresh_if_unique)+

lemma full_store_ids: "u \<noteq> 0 \<Longrightarrow> u \<in> packet_ids full_store"
proof -
  assume "u \<noteq> 0"
  then have "1 \<le> unat u" "unat u < 65536"
    using unsigned_less [of u, where 'a = nat] by (simp_all add: unat_gt_0 Suc_le_eq)
  then have "unat u \<in> set [1..<65536]"
    unfolding set_upt by simp
  then have "packet_id' (store2 (of_nat (unat u)) SUBACK) \<in> packet_ids full_store"
    unfolding packet_ids_def full_store_def by (simp only: set_map) (rule imageI, rule imageI)
  then show ?thesis by (simp add: store2_def)
qed

lemma publish_exactly_once_id_example:
  "publish_exactly_once_id (\<lambda>_. True) 1 [0x74] [0x68, 0x69] False (new_endpoint True)
   = Inr (True, (new_endpoint True)
       \<lparr>store_' := [\<lparr>packet_id' = 1, expected_control_packet_type' = PUBREC,
                     buf' = Some [0, 0, 0, 0x3C, 0x07, 0x00, 0x01, 0x74, 0x00, 0x01, 0x68, 0x69],
                     ptr' = 3, size' = 9\<rparr>],
        trace := [Write [0x34, 0x07, 0x00, 0x01, 0x74, 0x00, 0x01, 0x68, 0x69]]\<rparr>)"
proof -
  have u: "is_unique_packet_id (new_endpoint True) 1"
    by (simp add: is_unique_packet_id_def new_endpoint_def)
  have b: "publish_body [0x74] 2 1 [0x68, 0x69] = [0x00, 0x01, 0x74, 0x00, 0x01, 0x68, 0x69]"
    by (simp add: publish_body_def encoded_length_def)
  show ?thesis
    unfolding publish_exactly_once_id_def
    by (simp add: u exactly_once_def with_true_def send_publish_eq is_valid_length_def b
        frame_def remaining_bytes_of_small make_fixed_header_def publish_flags_def
        as_write_def emplace_def Let_def new_endpoint_def is_unique_packet_id_def replicate3)
qed

section \<open>The QoS 2 exchanges\<close>

lemma expected_for_append [simp]:
  "expected_for p (st @ st') = expected_for p st @ expected_for p st'"
  by (simp add: expected_for_def)

lemma expected_for_absent: "p \<notin> packet_ids st \<Longrightarrow> expected_for p st = []"
  by (auto simp add: expected_for_def packet_ids_def filter_empty_conv)

lemma expected_for_empty_iff: "expected_for p st = [] \<longleftrightarrow> p \<notin> packet_ids st"
  by (auto simp add: expected_for_def packet_ids_def filter_empty_conv)

lemma expected_for_erase_key:
  "expected_for p (erase_key p t st) = filter (\<lambda>k. k \<noteq> t) (expected_for p st)"
  by (induction st) (auto simp add: expected_for_def erase_key_def)

lemma others_erase_key: "others p (erase_key p t st) = others p st"
  by (induction st) (auto simp add: others_def erase_key_def)

lemma others_append [simp]: "others p (st @ st') = others p st @ others p st'"
  by (simp add: others_def)

lemma handle_pubrec_eq:
  assumes "remaining_length_' s = 2" "payload_' s = [a, b]"
  shows "handle_pubrec s =
     Inr (call (h_pubrec_' s) (H_pubrec (make_uint16_t a b))
       ((as_write [0x62, 0x02, a, b] s)
          \<lparr>store_' := emplace
             \<lparr>packet_id' = make_uint16_t a b, expected_control_packet_type' = PUBCOMP,
              buf' = Some (replicate 3 0 @ [0x62, 0x02, a, b]), ptr' = 3, size' = 4\<rparr>
             (erase_key (make_uint16_t a b) PUBREC (store_' s))\<rparr>))"
  using assms
  by (simp add: handle_pubrec_def send_pubrel_eq packet_id_bytes_of_make_uint16_t Let_def
      as_write_def call_def)

lemma handle_pubcomp_eq:
  assumes "remaining_length_' s = 2" "payload_' s = [a, b]"
  shows "handle_pubcomp s =
     Inr (call (h_pubcomp_' s) (H_pubcomp (make_uint16_t a b))
       (s\<lparr>store_' := erase_key (make_uint16_t a b) PUBCOMP (store_' s)\<rparr>))"
  using assms by (simp add: handle_pubcomp_def Let_def call_def)

lemma handle_pubrel_eq:
  assumes "remaining_length_' s = 2" "payload_' s = [a, b]"
  shows "handle_pubrel s = Inr (as_write [0x70, 0x02, a, b] s)"
  using assms
  by (simp add: handle_pubrel_def send_pubcomp_eq packet_id_bytes_of_make_uint16_t Let_def)

lemma trace_call: "trace (call h ev s) = trace s @ (if h then [ev] else [])"
  by (simp add: call_def)

lemma store_call [simp]: "store_' (call h ev s) = store_' s"
  by (simp add: call_def)

lemma emplace_exI:
  "packet_id' e = p \<Longrightarrow> expected_control_packet_type' e = t \<Longrightarrow>
   \<exists>e'. packet_id' e' = p \<and> expected_control_packet_type' e' = t
        \<and> emplace e st = emplace e' st"
  by blast

lemma send_publish_qos2_store:
  assumes "send_publish ivc topic_name 2 retain p contents s = Inr s'"
  shows "\<exists>e. packet_id' e = p \<and> expected_control_packet_type' e = PUBREC
           \<and> store_' s' = emplace e (store_' s)"
  using assms
  by (auto simp add: send_publish_def Let_def as_write_def at_least_once_def
      split: if_splits sum.splits prod.splits intro!: emplace_exI)

lemma expected_for_emplace_fresh:
  assumes "p \<notin> packet_ids st" "packet_id' e = p"
  shows "expected_for p (emplace e st) = [expected_control_packet_type' e]"
  using assms by (simp add: emplace_fresh expected_for_absent) (simp add: expected_for_def)

lemma publish_exactly_once_id_eq:
  assumes "is_unique_packet_id s p" "is_valid_length topic_name" "ivc topic_name"
    and "length (publish_body topic_name 2 p contents) \<le> 268435455"
  shows "\<exists>s1. publish_exactly_once_id ivc p topic_name contents retain s = Inr (True, s1)
          \<and> trace s1 = trace s @ [Write (frame (make_fixed_header PUBLISH (publish_flags 2 retain))
                                             (publish_body topic_name 2 p contents))]
          \<and> expected_for p (store_' s1) = [PUBREC]"
proof -
  from assms(1) have f: "p \<notin> packet_ids (store_' s)"
    by (simp add: is_unique_packet_id_iff)
  show ?thesis
    unfolding publish_exactly_once_id_def
    using assms f
    by (simp add: exactly_once_def with_true_def send_publish_eq Let_def as_write_def
        expected_for_emplace_fresh)
qed

lemma publish_exactly_once_expected:
  assumes "publish_exactly_once ivc topic_name contents retain s = Some (Inr (p, s1))"
  shows "expected_for p (store_' s1) = [PUBREC]"
proof -
  from assms obtain s0 where a: "create_unique_packet_id s = Some (p, s0)"
    and b: "send_publish ivc topic_name 2 retain p contents s0 = Inr s1"
    by (auto simp add: publish_exactly_once_def with_packet_id_eq exactly_once_def
        split: option.splits)
  from create_unique_packet_id_result [OF a]
  have "p \<notin> packet_ids (store_' s0)"
    by (auto simp add: is_unique_packet_id_iff)
  with send_publish_qos2_store [OF b] show ?thesis
    by (auto simp add: expected_for_emplace_fresh)
qed

lemma make_uint16_t_0_1: "make_uint16_t 0 1 = 1"
  by (simp add: make_uint16_t_def)

lemma publish_exactly_once_example:
  "publish_exactly_once (\<lambda>_. True) [0x74] [0x68, 0x69] False (new_endpoint True)
   = Some (Inr (1, (new_endpoint True)
       \<lparr>store_' := [\<lparr>packet_id' = 1, expected_control_packet_type' = PUBREC,
                     buf' = Some [0, 0, 0, 0x3C, 0x07, 0x00, 0x01, 0x74, 0x00, 0x01, 0x68, 0x69],
                     ptr' = 3, size' = 9\<rparr>],
        packet_id_master_' := 1,
        trace := [Write [0x34, 0x07, 0x00, 0x01, 0x74, 0x00, 0x01, 0x68, 0x69]]\<rparr>))"
proof -
  have r: "create_unique_packet_id (new_endpoint True)
       = Some (1, (new_endpoint True)\<lparr>packet_id_master_' := 1\<rparr>)"
    by (subst create_unique_packet_id.simps)
      (simp add: Let_def is_unique_packet_id_def new_endpoint_def)
  have b: "publish_body [0x74] 2 1 [0x68, 0x69] = [0x00, 0x01, 0x74, 0x00, 0x01, 0x68, 0x69]"
    by (simp add: publish_body_def encoded_length_def)
  show ?thesis
    unfolding publish_exactly_once_def r
    by (simp add: exactly_once_def with_packet_id_def send_publish_eq is_valid_length_def b
        frame_def remaining_bytes_of_small make_fixed_header_def publish_flags_def
        as_write_def emplace_def Let_def new_endpoint_def replicate3)
qed

lemma expected_in_store:
  "(\<exists>x \<in> set st. packet_id' x = p \<and> expected_control_packet_type' x = t)
     \<longleftrightarrow> t \<in> set (expected_for p st)"
  by (force simp add: expected_for_def)

lemma expected_for_emplace:
  assumes "packet_id' e = p" "expected_control_packet_type' e = t"
  shows "expected_for p (emplace e st)
     = expected_for p st @ (if t \<in> set (expected_for p st) then [] else [t])"
  using assms expected_in_store [of st p t]
  by (simp add: emplace_def) (simp add: expected_for_def)

lemma others_emplace:
  assumes "packet_id' e = p"
  shows "others p (emplace e st) = others p st"
  using assms by (simp add: others_def emplace_def)

lemma send_suback_eq:
  assumes "length params + 2 \<le> 268435455"
  shows "send_suback params packet_id s
   = Inr (as_write
            (frame 0x90 ([ucast (drop_bit 8 packet_id), ucast (packet_id AND 0xff)] @ params))
            (s\<lparr>store_' := emplace (store2 packet_id SUBACK) (store_' s)\<rparr>))"
proof -
  have "push_packet_id send_buffer packet_id @ params
      = send_buffer @ ([ucast (drop_bit 8 packet_id), ucast (packet_id AND 0xff)] @ params)"
    by (simp add: push_packet_id_def)
  then show ?thesis
    using assms
    by (simp add: send_suback_def finalize_frame make_fixed_header_def buffer_frame
        type_code.simps)
qed

lemma qos2_exchange_with_suback:
  "publish_exactly_once_id (\<lambda>_. True) 1 [0x74] [0x68, 0x69] False (new_endpoint True)
     = Inr (True, qos2_sender [stored_publish]
                    [Write [0x34, 0x07, 0x00, 0x01, 0x74, 0x00, 0x01, 0x68, 0x69]])"
  "send_suback [0x00] 1 (qos2_sender [stored_publish] tr)
     = Inr (qos2_sender [stored_publish, store2 1 SUBACK]
              (tr @ [Write [0x90, 0x03, 0x00, 0x01, 0x00]]))"
  "async_read_control_packet_type [0x50, 0x02, 0x00, 0x01] (qos2_sender st tr)
     = Payload [] (ack_received 0x50 st tr)"
  "handle_pubrec (ack_received 0x50 [stored_publish, store2 1 SUBACK] tr)
     = Inr (ack_received 0x50 [store2 1 SUBACK, stored_pubrel]
              (tr @ [Write [0x62, 0x02, 0x00, 0x01]]))"
  "async_read_control_packet_type [0x70, 0x02, 0x00, 0x01] (ack_received 0x50 st tr)
     = Payload [] (ack_received 0x70 st tr)"
  "handle_pubcomp (ack_received 0x70 [store2 1 SUBACK, stored_pubrel] tr)
     = Inr (ack_received 0x70 [store2 1 SUBACK] tr)"
proof -
  show "publish_exactly_once_id (\<lambda>_. True) 1 [0x74] [0x68, 0x69] False (new_endpoint True)
     = Inr (True, qos2_sender [stored_publish]
                    [Write [0x34, 0x07, 0x00, 0x01, 0x74, 0x00, 0x01, 0x68, 0x69]])"
    by (simp add: publish_exactly_once_id_example qos2_sender_def stored_publish_def)
  show "send_suback [0x00] 1 (qos2_sender [stored_publish] tr)
     = Inr (qos2_sender [stored_publish, store2 1 SUBACK]
              (tr @ [Write [0x90, 0x03, 0x00, 0x01, 0x00]]))"
    by (simp add: send_suback_eq frame_def remaining_bytes_of_small qos2_sender_def
        stored_publish_def store2_def emplace_def as_write_def)
  show "async_read_control_packet_type [0x50, 0x02, 0x00, 0x01] (qos2_sender st tr)
     = Payload [] (ack_received 0x50 st tr)"
    by (simp add: async_read_control_packet_type_def handle_control_packet_type_def
        handle_remaining_length.simps qos2_sender_def ack_received_def new_endpoint_def
        resize_def Let_def)
  show "handle_pubrec (ack_received 0x50 [stored_publish, store2 1 SUBACK] tr)
     = Inr (ack_received 0x50 [store2 1 SUBACK, stored_pubrel]
              (tr @ [Write [0x62, 0x02, 0x00, 0x01]]))"
    using handle_pubrec_eq [of "ack_received 0x50 [stored_publish, store2 1 SUBACK] tr" 0 1]
    by (simp add: ack_received_def new_endpoint_def make_uint16_t_0_1 call_def as_write_def
        erase_key_def emplace_def stored_publish_def stored_pubrel_def store2_def replicate3)
  show "async_read_control_packet_type [0x70, 0x02, 0x00, 0x01] (ack_received 0x50 st tr)
     = Payload [] (ack_received 0x70 st tr)"
    by (simp add: async_read_control_packet_type_def handle_control_packet_type_def
        handle_remaining_length.simps ack_received_def new_endpoint_def
        resize_def Let_def)
  show "handle_pubcomp (ack_received 0x70 [store2 1 SUBACK, stored_pubrel] tr)
     = Inr (ack_received 0x70 [store2 1 SUBACK] tr)"
    using handle_pubcomp_eq [of "ack_received 0x70 [store2 1 SUBACK, stored_pubrel] tr" 0 1]
    by (simp add: ack_received_def new_endpoint_def make_uint16_t_0_1 call_def
        erase_key_def stored_pubrel_def store2_def)
qed

section \<open>Receiving a publish\<close>

lemma bit_div_256: "bit (n div 256) m = bit n (8 + m)" for n :: nat
proof -
  have "n div 256 = drop_bit 8 n" by (simp add: drop_bit_eq_div)
  then show ?thesis by (simp add: bit_drop_bit_eq)
qed

lemma make_uint16_t_encoded_length:
  "make_uint16_t (of_nat (n div 256)) (of_nat n) = of_nat n"
  unfolding make_uint16_t_alt
proof (rule bit_word_eqI)
  fix k
  assume "k < LENGTH(16)"
  then show "bit (push_bit 8 (ucast (of_nat (n div 256) :: byte)) OR ucast (of_nat n :: byte)
               :: 16 word) k
             \<longleftrightarrow> bit (of_nat n :: 16 word) k"
    by (cases "k < 8") (auto simp add: bit_simps bit_div_256)
qed

lemma unat_encoded_length:
  "n \<le> 65535 \<Longrightarrow> unat (make_uint16_t (of_nat (n div 256)) (of_nat n)) = n"
  by (simp add: make_uint16_t_encoded_length unat_of_nat)

lemma handle_publish_topic:
  assumes "length topic_name \<le> 65535"
    and "payload_' s = encoded_length topic_name @ topic_name @ rest"
  shows "unat (make_uint16_t (payload_' s ! 0) (payload_' s ! (0 + 1))) = length topic_name"
    and "string_at (payload_' s) (0 + 2) (length topic_name) = topic_name"
  using assms by (simp_all add: encoded_length_def unat_encoded_length string_at_def)

lemma handle_publish_qos0:
  assumes "length topic_name \<le> 65535"
    and "payload_' s = encoded_length topic_name @ topic_name @ contents"
    and "remaining_length_' s = length (payload_' s)"
    and "get_qos (fixed_header_' s) = at_most_once"
  shows "handle_publish s
         = Inr (call (h_publish_' s) (H_publish (fixed_header_' s) None topic_name contents) s)"
  unfolding handle_publish_def Let_def handle_publish_topic [OF assms(1,2)]
  using assms by (simp add: encoded_length_def string_at_def)

lemma handle_publish_qos1:
  assumes "length topic_name \<le> 65535"
    and "payload_' s = encoded_length topic_name @ topic_name @ a # b # contents"
    and "remaining_length_' s = length (payload_' s)"
    and "get_qos (fixed_header_' s) = at_least_once"
  shows "handle_publish s
         = Inr (call (h_publish_' s)
                  (H_publish (fixed_header_' s) (Some (make_uint16_t a b)) topic_name contents)
                  (as_write [0x40, 0x02, a, b] s))"
  unfolding handle_publish_def Let_def handle_publish_topic [OF assms(1,2)]
  using assms
  by (simp add: encoded_length_def string_at_def at_most_once_def at_least_once_def
      send_puback_eq packet_id_bytes_of_make_uint16_t nth_append as_write_def)

lemma handle_publish_qos2:
  assumes "length topic_name \<le> 65535"
    and "payload_' s = encoded_length topic_name @ topic_name @ a # b # contents"
    and "remaining_length_' s = length (payload_' s)"
    and "get_qos (fixed_header_' s) = exactly_once"
  shows "handle_publish s
         = Inr (call (h_publish_' s)
                  (H_publish (fixed_header_' s) (Some (make_uint16_t a b)) topic_name contents)
                  (as_write [0x50, 0x02, a, b] s))"
  unfolding handle_publish_def Let_def handle_publish_topic [OF assms(1,2)]
  using assms
  by (simp add: encoded_length_def string_at_def at_most_once_def at_least_once_def
      exactly_once_def send_pubrec_eq packet_id_bytes_of_make_uint16_t nth_append as_write_def)

lemma read_qos2_publish_frame:
  "async_read_control_packet_type qos2_publish_frame (qos2_publish_received tr)
   = Payload [] (qos2_publish_received tr)"
  "async_read_control_packet_type qos2_publish_frame publish_endpoint
   = Payload [] (qos2_publish_received [])"
  by (simp_all add: async_read_control_packet_type_def handle_control_packet_type_def
      handle_remaining_length.simps qos2_publish_frame_def qos2_publish_received_def
      publish_endpoint_def new_endpoint_def resize_def Let_def)

section \<open>Session resumption\<close>

lemma connack_resend_eq:
  "connack_resend st kept s
   = s\<lparr>store_' := kept @ filter (\<lambda>e. buf' e \<noteq> None) st,
       trace := trace s @ map (\<lambda>e. Write (stored_bytes e)) (filter (\<lambda>e. buf' e \<noteq> None) st)\<rparr>"
proof (induction st arbitrary: kept s)
  case Nil
  then show ?case by simp
next
  case (Cons it rest)
  then show ?case
    by (cases "buf' it") (simp_all add: as_write_def stored_bytes_def)
qed

lemma handle_connack_accepted:
  assumes "remaining_length_' s = 2" "payload_' s = [sp, accepted]"
  shows "handle_connack s
     = Inr (call (h_connack_' s) (H_connack (is_session_present sp) accepted)
         (if clean_session_' s then s\<lparr>store_' := []\<rparr>
          else s\<lparr>store_' := filter (\<lambda>e. buf' e \<noteq> None) (store_' s),
                 trace := trace s @ map (\<lambda>e. Write (stored_bytes e))
                                      (filter (\<lambda>e. buf' e \<noteq> None) (store_' s))\<rparr>))"
  using assms by (simp add: handle_connack_def connack_resend_eq Let_def call_def)

lemma frame_dup:
  "frame (h OR 0b00001000) body = (hd (frame h body) OR 0b00001000) # tl (frame h body)"
  by (simp add: frame_def)

lemma is_dup_or: "is_dup (h OR 0b00001000)"
proof -
  have "bit (h OR 0b00001000) 3" by (simp add: bit_simps)
  then have "bit ((h OR 0b00001000) AND 0b00001000) 3" by (simp add: bit_simps)
  then show ?thesis unfolding is_dup_def by (metis bit_0_eq bot_apply bot_bool_def)
qed

lemma send_publish_stored_copy:
  assumes "is_valid_length topic_name" "ivc topic_name"
    and "length (publish_body topic_name qos p payload) \<le> 268435455"
    and "qos > 0" "p \<notin> packet_ids (store_' s)"
  shows "\<exists>s1 e fr. send_publish ivc topic_name qos retain p payload s = Inr s1
           \<and> trace s1 = trace s @ [Write fr]
           \<and> store_' s1 = store_' s @ [e]
           \<and> buf' e \<noteq> None
           \<and> stored_bytes e = (hd fr OR 0b00001000) # tl fr
           \<and> is_dup (hd (stored_bytes e))"
  using assms
  by (simp add: send_publish_eq Let_def as_write_def emplace_fresh stored_bytes_def
      buffer_frame)
    (simp add: frame_def is_dup_or)

lemma send_pubrel_stored_copy:
  assumes "p \<notin> packet_ids (store_' s)"
  shows "\<exists>s1 e fr. send_pubrel p s = Inr s1
           \<and> trace s1 = trace s @ [Write fr]
           \<and> store_' s1 = store_' s @ [e]
           \<and> buf' e \<noteq> None
           \<and> stored_bytes e = fr
           \<and> fr = [0x62, 0x02, ucast (drop_bit 8 p), ucast (p AND 0xff)]"
  using assms
  by (simp add: send_pubrel_eq as_write_def emplace_fresh stored_bytes_def buffer_def)

section \<open>The keep-alive timer\<close>

lemma handle_timer_success:
  "handle_timer now success c
   = Inr ((as_write [0xC0, 0x00] c)
            \<lparr>tim_' := \<lparr>expiry = now + ping_duration_ms_' c, waiting = True\<rparr>\<rparr>)"
  by (simp add: handle_timer_def send_pingreq_eq expires_from_now_def async_wait_def
      as_write_def)

lemma handle_timer_error: "ec \<noteq> success \<Longrightarrow> handle_timer now ec c = Inr c"
  by (simp add: handle_timer_def)

lemma send_connect_client:
  fixes c :: "'a client_scheme"
  assumes "send_connect ivc k c = Inr c1"
  shows "tim_' c1 = tim_' c \<and> ping_duration_ms_' c1 = ping_duration_ms_' c
         \<and> connected_' c1 = connected_' c"
  using assms
  by (auto simp add: send_connect_def Let_def as_write_def
      split: if_splits sum.splits prod.splits option.splits)

lemma connect_arms_timer:
  fixes c :: "'a client_scheme"
  assumes "ping_duration_ms_' c \<noteq> 0" "connect ivc now success c = Inr c1"
  shows "tim_' c1 = \<lparr>expiry = now + ping_duration_ms_' c, waiting = True\<rparr> \<and> connected_' c1
         \<and> ping_duration_ms_' c1 = ping_duration_ms_' c"
  using assms
  by (auto simp add: connect_def Let_def expires_from_now_def async_wait_def
      dest!: send_connect_client)

lemma send_keeps_timer:
  fixes c :: "'a client_scheme"
  shows "send_publish ivc topic_name qos retain p payload c = Inr c1
         \<Longrightarrow> tim_' c1 = tim_' c \<and> ping_duration_ms_' c1 = ping_duration_ms_' c"
    and "send_subscribe ivc params p c = Inr c1
         \<Longrightarrow> tim_' c1 = tim_' c \<and> ping_duration_ms_' c1 = ping_duration_ms_' c"
    and "send_unsubscribe ivc topics p c = Inr c1
         \<Longrightarrow> tim_' c1 = tim_' c \<and> ping_duration_ms_' c1 = ping_duration_ms_' c"
    and "send_puback p c = Inr c1
         \<Longrightarrow> tim_' c1 = tim_' c \<and> ping_duration_ms_' c1 = ping_duration_ms_' c"
    and "send_pubrec p c = Inr c1
         \<Longrightarrow> tim_' c1 = tim_' c \<and> ping_duration_ms_' c1 = ping_duration_ms_' c"
    and "send_pubrel p c = Inr c1
         \<Longrightarrow> tim_' c1 = tim_' c \<and> ping_duration_ms_' c1 = ping_duration_ms_' c"
    and "send_pubcomp p c = Inr c1
         \<Longrightarrow> tim_' c1 = tim_' c \<and> ping_duration_ms_' c1 = ping_duration_ms_' c"
  by (auto simp add: send_publish_def send_subscribe_def send_unsubscribe_def
      send_puback_eq send_pubrec_eq send_pubrel_eq send_pubcomp_eq Let_def as_write_def
      split: if_splits sum.splits prod.splits)

lemma connect_keep_alive_client:
  "connect (\<lambda>_. True) 0 success keep_alive_client
   = Inr (keep_alive_client
       \<lparr>connected_' := True,
        trace := [Write [0x10, 0x0C, 0x00, 0x04, 0x4D, 0x51, 0x54, 0x54, 0x04, 0x00, 0x00, 0x0A,
                         0x00, 0x00]],
        tim_' := \<lparr>expiry = 1000, waiting = True\<rparr>\<rparr>)"
proof -
  have "finalize (send_buffer
          @ [0x00, 0x04, 0x4D, 0x51, 0x54, 0x54, 0x04, 0x00, 0x00, 0x0A, 0x00, 0x00]) h
        = Inr (replicate 3 0 @ h # [12]
                 @ [0x00, 0x04, 0x4D, 0x51, 0x54, 0x54, 0x04, 0x00, 0x00, 0x0A, 0x00, 0x00],
               3, 14)" for h
    by (subst finalize_send_buffer) (simp_all add: remaining_bytes_of_small)
  then show ?thesis
    by (simp add: connect_def send_connect_def keep_alive_client_def
        set_keep_alive_sec_ping_ms_def new_client_def is_valid_length_def encoded_length_def
        make_fixed_header_def buffer_def Let_def expires_from_now_def async_wait_def
        as_write_def)
qed

lemma publish_at_most_once_example:
  fixes c :: "'a client_scheme"
  shows "publish_at_most_once (\<lambda>_. True) [0x74] [0x68, 0x69] False c
         = Inr (as_write [0x30, 0x05, 0x00, 0x01, 0x74, 0x68, 0x69] c)"
proof -
  have b: "publish_body [0x74] 0 0 [0x68, 0x69] = [0x00, 0x01, 0x74, 0x68, 0x69]"
    by (simp add: publish_body_def encoded_length_def)
  show ?thesis
    unfolding publish_at_most_once_def
    by (simp add: at_most_once_def send_publish_eq is_valid_length_def b frame_def
        remaining_bytes_of_small make_fixed_header_def publish_flags_def Let_def)
qed

section \<open>A CONNECT with a will\<close>

lemma send_connect_will:
  "send_connect (\<lambda>_. True) 0 will_endpoint = Inr (as_write will_connect_frame will_endpoint)"
proof -
  have "finalize (send_buffer
          @ [0x00, 0x04, 0x4D, 0x51, 0x54, 0x54, 0x04, 0x06, 0x00, 0x00,
             0x00, 0x01, 0x63, 0x00, 0x01, 0x74, 0x00, 0x03, 0x62, 0x79, 0x65]) h
        = Inr (replicate 3 0 @ h # [0x15]
                 @ [0x00, 0x04, 0x4D, 0x51, 0x54, 0x54, 0x04, 0x06, 0x00, 0x00,
                    0x00, 0x01, 0x63, 0x00, 0x01, 0x74, 0x00, 0x03, 0x62, 0x79, 0x65],
               3, 23)" for h
    by (subst finalize_send_buffer) (simp_all add: remaining_bytes_of_small)
  then show ?thesis
    by (simp add: send_connect_def will_endpoint_def new_endpoint_def is_valid_length_def
        encoded_length_def make_fixed_header_def buffer_def will_connect_frame_def Let_def
        will_flag_def set_will_qos_def)
qed

lemma read_will_connect_frame:
  "async_read_control_packet_type will_connect_frame ((new_endpoint True)\<lparr>h_connect_' := True\<rparr>)
   = Payload [] will_connect_received"
  by (simp add: async_read_control_packet_type_def handle_control_packet_type_def
      handle_remaining_length.simps will_connect_frame_def will_connect_received_def
      new_endpoint_def resize_def Let_def)

lemma handle_connect_unreached_will:
  "handle_connect_unreached will_connect_received
   = Inr (will_connect_received
       \<lparr>trace := [H_connect [0x63] None None
                    (Some \<lparr>topic' = [0x74], message' = [0x62], retain' = False, qos' = 0\<rparr>)
                    True 0]\<rparr>)"
  by (simp add: handle_connect_unreached_def handle_connect_will_def
      handle_connect_string_def will_connect_received_def new_endpoint_def Let_def
      make_uint16_t_def string_at_def has_will_flag_def has_clean_session_def
      has_user_name_flag_def has_password_flag_def has_will_retain_def will_qos_def
      will_flag_def will_retain_def user_name_flag_def password_flag_def call_def)

section \<open>The claims\<close>

subsection \<open>C1: the CONNECT decoder\<close>

lemma handle_connect_throws: "handle_connect s = Inl protocol_error"
  by (simp add: handle_connect_def)

lemma send_connect_writes_connect_frame:
  "send_connect (\<lambda>_. True) 0 ((new_endpoint True)\<lparr>clean_session_' := True\<rparr>)
   = Inr (as_write connect_frame ((new_endpoint True)\<lparr>clean_session_' := True\<rparr>))"
proof -
  have "finalize (send_buffer
          @ [0x00, 0x04, 0x4D, 0x51, 0x54, 0x54, 0x04, 0x02, 0x00, 0x00, 0x00, 0x00]) h
        = Inr (replicate 3 0 @ h # [12]
                 @ [0x00, 0x04, 0x4D, 0x51, 0x54, 0x54, 0x04, 0x02, 0x00, 0x00, 0x00, 0x00],
               3, 14)" for h
    by (subst finalize_send_buffer) (simp_all add: remaining_bytes_of_small)
  then show ?thesis
    by (simp add: send_connect_def new_endpoint_def is_valid_length_def encoded_length_def
        make_fixed_header_def buffer_def connect_frame_def Let_def)
qed

text \<open>
  C1 (the code departs from the claim). The claim: a received v3.1.1 CONNECT whose body
  begins with 00 04 'M' 'Q' 'T' 'T' 04 and is at least 10 bytes long raises no protocol
  error. The endpoint that reads \<open>connect_frame\<close>, the packet its own \<open>send_connect\<close>
  writes, holds a body of 12 bytes with exactly these first seven bytes, and
  \<open>handle_connect\<close> throws \<open>protocol_error\<close> on it: the \<^verbatim>\<open>throw\<close> stands after
  the empty block of the comparison, so it is reached on every input.
\<close>

theorem C1_handle_connect_throws_on_valid_connect:
  "async_read_control_packet_type connect_frame (new_endpoint True)
     = Payload [] connect_received
   \<and> remaining_length_' connect_received = 12
   \<and> take 7 (payload_' connect_received) = [0x00, 0x04, 0x4D, 0x51, 0x54, 0x54, 0x04]
   \<and> handle_connect connect_received = Inl protocol_error"
  by (simp add: async_read_control_packet_type_def handle_control_packet_type_def
      handle_remaining_length.simps connect_frame_def connect_received_def new_endpoint_def
      resize_def Let_def handle_connect_throws)

theorem C1_witness:
  "10 \<le> remaining_length_' connect_received
   \<and> handle_connect connect_received = Inl protocol_error"
  using C1_handle_connect_throws_on_valid_connect by simp

subsection \<open>C2: the remaining length decoder\<close>

text \<open>
  C2 (the code departs from the claim). The claim: every remaining length of 1 to 4
  bytes decodes, so every value up to 268,435,455 does. The value 2,097,152 is encoded
  in four bytes, 80 80 80 01, and the decoder throws \<open>remaining_length_error\<close> on
  them whatever follows: the multiplier is compared with \<open>128 * 128 * 128\<close> after it has
  been multiplied for the byte just read, so the fourth byte always throws.
\<close>

theorem C2_four_byte_remaining_length_throws:
  "remaining_bytes 2097152 = Inr [0x80, 0x80, 0x80, 0x01]
   \<and> handle_control_packet_type (0x80 # 0x80 # 0x80 # 0x01 # rest) s
       = Throw remaining_length_error"
  by (simp add: remaining_bytes_def remaining_bytes_of.simps handle_control_packet_type_def
      handle_remaining_length.simps Let_def)

theorem C2_witness:
  "handle_control_packet_type [0x80, 0x80, 0x80, 0x01] (new_endpoint True)
   = Throw remaining_length_error"
  using C2_four_byte_remaining_length_throws [of "[]" "new_endpoint True"] by simp

subsection \<open>C3: encoding and decoding\<close>

text \<open>
  C3 (the code departs from the claim). The claim: decoding what the send functions
  encode gives the fields back, in particular the will topic and will message of a
  CONNECT. The endpoint \<open>will_endpoint\<close> writes \<open>will_connect_frame\<close>; a server-side
  endpoint reads it from the stream, and \<open>handle_connect\<close> throws \<open>protocol_error\<close>: no
  field is decoded. The statements after the \<^verbatim>\<open>throw\<close>, if they were reached, would
  hand the will message \<^verbatim>\<open>b\<close> to the connect handler in place of \<^verbatim>\<open>bye\<close>: it is cut
  to the length of the will topic.
\<close>

theorem C3_connect_with_will_not_decoded:
  "send_connect (\<lambda>_. True) 0 will_endpoint = Inr (as_write will_connect_frame will_endpoint)
   \<and> async_read_control_packet_type will_connect_frame
       ((new_endpoint True)\<lparr>h_connect_' := True\<rparr>)
     = Payload [] will_connect_received
   \<and> handle_connect will_connect_received = Inl protocol_error
   \<and> handle_connect_unreached will_connect_received
     = Inr (will_connect_received
         \<lparr>trace := [H_connect [0x63] None None
                      (Some \<lparr>topic' = [0x74], message' = [0x62], retain' = False, qos' = 0\<rparr>)
                      True 0]\<rparr>)"
  by (simp add: send_connect_will read_will_connect_frame handle_connect_throws
      handle_connect_unreached_will)

theorem C3_witness:
  "handle_connect will_connect_received = Inl protocol_error
   \<and> will_' will_endpoint
     = Some \<lparr>topic' = [0x74], message' = [0x62, 0x79, 0x65], retain' = False, qos' = 0\<rparr>"
  using C3_connect_with_will_not_decoded by (simp add: will_endpoint_def)

subsection \<open>C4: receiving a publish at QoS 2\<close>

text \<open>
  C4 (amended). The endpoint keeps no set of received QoS 2 packet ids. For every received
  PUBLISH at QoS 2 with packet id \<open>P\<close>, whatever was received before, it writes PUBREC
  for \<open>P\<close> and then calls the publish handler (when one is set) with the fixed header, \<open>P\<close>,
  the topic and the payload: a repeated \<open>P\<close> is delivered again. On PUBREL for \<open>P\<close> it
  writes PUBCOMP for \<open>P\<close> and changes nothing else.
\<close>

theorem C4_qos2_receive:
  "(get_qos (fixed_header_' s) = exactly_once \<and> length topic_name \<le> 65535
      \<and> payload_' s = encoded_length topic_name @ topic_name @ a # b # contents
      \<and> remaining_length_' s = length (payload_' s) \<longrightarrow>
      handle_publish s
      = Inr (call (h_publish_' s)
               (H_publish (fixed_header_' s) (Some (make_uint16_t a b)) topic_name contents)
               (as_write [0x50, 0x02, a, b] s)))
   \<and> (remaining_length_' s = 2 \<and> payload_' s = [a, b] \<longrightarrow>
      handle_pubrel s = Inr (as_write [0x70, 0x02, a, b] s))"
  using handle_publish_qos2 [of topic_name s a b contents] handle_pubrel_eq [of s a b]
  by blast

theorem C4_witness:
  "handle_publish (qos2_publish_received [])
     = Inr (qos2_publish_received
              [Write [0x50, 0x02, 0x00, 0x07], H_publish 0x34 (Some 7) [0x74] [0x68, 0x69]])
   \<and> handle_pubrel ((qos2_publish_received [])\<lparr>remaining_length_' := 2, payload_' := [0, 7]\<rparr>)
     = Inr (as_write [0x70, 0x02, 0x00, 0x07]
              ((qos2_publish_received [])\<lparr>remaining_length_' := 2, payload_' := [0, 7]\<rparr>))"
proof -
  have "handle_publish (qos2_publish_received [])
     = Inr (qos2_publish_received
              [Write [0x50, 0x02, 0x00, 0x07], H_publish 0x34 (Some 7) [0x74] [0x68, 0x69]])"
    using C4_qos2_receive [where s = "qos2_publish_received []" and topic_name = "[0x74]"
        and a = 0 and b = 7 and contents = "[0x68, 0x69]", THEN conjunct1]
    by (simp add: qos2_publish_received_def publish_endpoint_def new_endpoint_def get_qos_def
        exactly_once_def encoded_length_def call_def as_write_def make_uint16_t_def)
  moreover have "handle_pubrel
       ((qos2_publish_received [])\<lparr>remaining_length_' := 2, payload_' := [0, 7]\<rparr>)
     = Inr (as_write [0x70, 0x02, 0x00, 0x07]
              ((qos2_publish_received [])\<lparr>remaining_length_' := 2, payload_' := [0, 7]\<rparr>))"
    using C4_qos2_receive [where
        s = "(qos2_publish_received [])\<lparr>remaining_length_' := 2, payload_' := [0, 7]\<rparr>"
        and a = 0 and b = 7, THEN conjunct2]
    by simp
  ultimately show ?thesis by (rule conjI)
qed

text \<open>
  The claim as stated fails: the same PUBLISH at QoS 2 with packet id 7, read twice from
  the stream with no PUBREL in between, is answered with PUBREC and handed to the publish
  handler both times.
\<close>

theorem C4_counterexample:
  "async_read_control_packet_type qos2_publish_frame publish_endpoint
     = Payload [] (qos2_publish_received [])
   \<and> handle_publish (qos2_publish_received [])
     = Inr (qos2_publish_received
              [Write [0x50, 0x02, 0x00, 0x07], H_publish 0x34 (Some 7) [0x74] [0x68, 0x69]])
   \<and> async_read_control_packet_type qos2_publish_frame
       (qos2_publish_received
          [Write [0x50, 0x02, 0x00, 0x07], H_publish 0x34 (Some 7) [0x74] [0x68, 0x69]])
     = Payload []
         (qos2_publish_received
            [Write [0x50, 0x02, 0x00, 0x07], H_publish 0x34 (Some 7) [0x74] [0x68, 0x69]])
   \<and> handle_publish
       (qos2_publish_received
          [Write [0x50, 0x02, 0x00, 0x07], H_publish 0x34 (Some 7) [0x74] [0x68, 0x69]])
     = Inr (qos2_publish_received
              [Write [0x50, 0x02, 0x00, 0x07], H_publish 0x34 (Some 7) [0x74] [0x68, 0x69],
               Write [0x50, 0x02, 0x00, 0x07], H_publish 0x34 (Some 7) [0x74] [0x68, 0x69]])"
proof -
  have h: "handle_publish (qos2_publish_received tr)
     = Inr (qos2_publish_received
              (tr @ [Write [0x50, 0x02, 0x00, 0x07],
                     H_publish 0x34 (Some 7) [0x74] [0x68, 0x69]]))" for tr
    using handle_publish_qos2 [of "[0x74]" "qos2_publish_received tr" 0 7 "[0x68, 0x69]"]
    by (simp add: qos2_publish_received_def publish_endpoint_def new_endpoint_def get_qos_def
        exactly_once_def encoded_length_def call_def as_write_def make_uint16_t_def)
  show ?thesis
    using h [of "[]"]
      h [of "[Write [0x50, 0x02, 0x00, 0x07], H_publish 0x34 (Some 7) [0x74] [0x68, 0x69]]"]
    by (simp add: read_qos2_publish_frame)
qed

subsection \<open>C5: sending a publish at QoS 2\<close>

text \<open>
  C5 (amended). A QoS 2 publish with packet id \<open>p\<close> (given by the caller, where \<open>p\<close> is
  unique, or allocated) writes the PUBLISH and leaves exactly one element for \<open>p\<close> in the
  store, expecting PUBREC. On PUBREC for \<open>p\<close>, whatever the store holds, the endpoint
  erases the element of \<open>p\<close> that expects PUBREC, writes PUBREL for \<open>p\<close>, stores an
  element for \<open>p\<close> expecting PUBCOMP (unless there is one) and calls the pubrec handler
  when one is set. On PUBCOMP for \<open>p\<close> it erases the element of \<open>p\<close> that expects
  PUBCOMP and calls the pubcomp handler when one is set. The store is keyed by the packet
  id and the expected packet type: the elements of \<open>p\<close> that expect another packet type,
  and the elements under other ids, stay as they are. So no element for \<open>p\<close> is left
  exactly when the store held no other element for \<open>p\<close>.
\<close>

theorem C5_qos2_publish_flow:
  "(is_unique_packet_id s p \<and> is_valid_length topic_name \<and> ivc topic_name
      \<and> length (publish_body topic_name 2 p contents) \<le> 268435455 \<longrightarrow>
      (\<exists>s1. publish_exactly_once_id ivc p topic_name contents retain s = Inr (True, s1)
          \<and> trace s1 = trace s @ [Write (frame (make_fixed_header PUBLISH (publish_flags 2 retain))
                                             (publish_body topic_name 2 p contents))]
          \<and> expected_for p (store_' s1) = [PUBREC]))
   \<and> (publish_exactly_once ivc topic_name contents retain s = Some (Inr (p, s1)) \<longrightarrow>
        expected_for p (store_' s1) = [PUBREC])
   \<and> (remaining_length_' s = 2 \<and> payload_' s = [a, b] \<and> p = make_uint16_t a b \<longrightarrow>
      (\<exists>s2. handle_pubrec s = Inr s2
          \<and> trace s2 = trace s @ Write [0x62, 0x02, a, b]
                          # (if h_pubrec_' s then [H_pubrec p] else [])
          \<and> expected_for p (store_' s2)
              = filter (\<lambda>t. t \<noteq> PUBREC) (expected_for p (store_' s))
                @ (if PUBCOMP \<in> set (expected_for p (store_' s)) then [] else [PUBCOMP])
          \<and> others p (store_' s2) = others p (store_' s)))
   \<and> (remaining_length_' s = 2 \<and> payload_' s = [a, b] \<and> p = make_uint16_t a b \<longrightarrow>
      (\<exists>s3. handle_pubcomp s = Inr s3
          \<and> trace s3 = trace s @ (if h_pubcomp_' s then [H_pubcomp p] else [])
          \<and> expected_for p (store_' s3)
              = filter (\<lambda>t. t \<noteq> PUBCOMP) (expected_for p (store_' s))
          \<and> others p (store_' s3) = others p (store_' s)))"
proof (intro conjI impI)
  assume "is_unique_packet_id s p \<and> is_valid_length topic_name \<and> ivc topic_name
      \<and> length (publish_body topic_name 2 p contents) \<le> 268435455"
  then show "\<exists>s1. publish_exactly_once_id ivc p topic_name contents retain s = Inr (True, s1)
          \<and> trace s1 = trace s @ [Write (frame (make_fixed_header PUBLISH (publish_flags 2 retain))
                                             (publish_body topic_name 2 p contents))]
          \<and> expected_for p (store_' s1) = [PUBREC]"
    using publish_exactly_once_id_eq by blast
next
  assume "publish_exactly_once ivc topic_name contents retain s = Some (Inr (p, s1))"
  then show "expected_for p (store_' s1) = [PUBREC]"
    by (rule publish_exactly_once_expected)
next
  assume h: "remaining_length_' s = 2 \<and> payload_' s = [a, b] \<and> p = make_uint16_t a b"
  then have rl: "remaining_length_' s = 2" and pl: "payload_' s = [a, b]"
    and pe: "make_uint16_t a b = p"
    by blast+
  show "\<exists>s2. handle_pubrec s = Inr s2
          \<and> trace s2 = trace s @ Write [0x62, 0x02, a, b]
                          # (if h_pubrec_' s then [H_pubrec p] else [])
          \<and> expected_for p (store_' s2)
              = filter (\<lambda>t. t \<noteq> PUBREC) (expected_for p (store_' s))
                @ (if PUBCOMP \<in> set (expected_for p (store_' s)) then [] else [PUBCOMP])
          \<and> others p (store_' s2) = others p (store_' s)"
    by (simp add: handle_pubrec_eq [OF rl pl] pe trace_call as_write_def
        expected_for_emplace [where p = p and t = PUBCOMP] others_emplace
        expected_for_erase_key others_erase_key)
next
  assume h: "remaining_length_' s = 2 \<and> payload_' s = [a, b] \<and> p = make_uint16_t a b"
  then have rl: "remaining_length_' s = 2" and pl: "payload_' s = [a, b]"
    and pe: "make_uint16_t a b = p"
    by blast+
  show "\<exists>s3. handle_pubcomp s = Inr s3
          \<and> trace s3 = trace s @ (if h_pubcomp_' s then [H_pubcomp p] else [])
          \<and> expected_for p (store_' s3)
              = filter (\<lambda>t. t \<noteq> PUBCOMP) (expected_for p (store_' s))
          \<and> others p (store_' s3) = others p (store_' s)"
    by (simp add: handle_pubcomp_eq [OF rl pl] pe trace_call others_erase_key
        expected_for_erase_key)
qed

theorem C5_witness:
  "\<exists>s1 s2 s3 s1'.
     publish_exactly_once_id (\<lambda>_. True) 1 [0x74] [0x68, 0x69] False (new_endpoint True)
       = Inr (True, s1)
     \<and> expected_for 1 (store_' s1) = [PUBREC]
     \<and> publish_exactly_once (\<lambda>_. True) [0x74] [0x68, 0x69] False (new_endpoint True)
       = Some (Inr (1, s1'))
     \<and> expected_for 1 (store_' s1') = [PUBREC]
     \<and> handle_pubrec (s1\<lparr>remaining_length_' := 2, payload_' := [0, 1]\<rparr>) = Inr s2
     \<and> written s2 = [[0x34, 0x07, 0x00, 0x01, 0x74, 0x00, 0x01, 0x68, 0x69],
                      [0x62, 0x02, 0x00, 0x01]]
     \<and> expected_for 1 (store_' s2) = [PUBCOMP]
     \<and> handle_pubcomp (s2\<lparr>remaining_length_' := 2, payload_' := [0, 1]\<rparr>) = Inr s3
     \<and> 1 \<notin> packet_ids (store_' s3)"
proof -
  have u: "is_unique_packet_id (new_endpoint True) 1"
    by (simp add: is_unique_packet_id_def new_endpoint_def)
  have b: "publish_body [0x74] 2 1 [0x68, 0x69] = [0x00, 0x01, 0x74, 0x00, 0x01, 0x68, 0x69]"
    by (simp add: publish_body_def encoded_length_def)
  have "\<exists>s1. publish_exactly_once_id (\<lambda>_. True) 1 [0x74] [0x68, 0x69] False (new_endpoint True)
           = Inr (True, s1)
         \<and> trace s1 = trace (new_endpoint True)
             @ [Write (frame (make_fixed_header PUBLISH (publish_flags 2 False))
                         (publish_body [0x74] 2 1 [0x68, 0x69]))]
         \<and> expected_for 1 (store_' s1) = [PUBREC]"
    using C5_qos2_publish_flow [where s = "new_endpoint True" and p = 1 and topic_name = "[0x74]"
      and ivc = "\<lambda>_. True" and contents = "[0x68, 0x69]" and retain = False,
      THEN conjunct1] u
    by (simp add: is_valid_length_def b)
  then obtain s1 where s1:
    "publish_exactly_once_id (\<lambda>_. True) 1 [0x74] [0x68, 0x69] False (new_endpoint True)
       = Inr (True, s1)"
    "trace s1 = trace (new_endpoint True)
       @ [Write (frame (make_fixed_header PUBLISH (publish_flags 2 False))
                   (publish_body [0x74] 2 1 [0x68, 0x69]))]"
    "expected_for 1 (store_' s1) = [PUBREC]"
    by blast
  let ?s1 = "s1\<lparr>remaining_length_' := 2, payload_' := [0, 1]\<rparr>"
  have "\<exists>s2. handle_pubrec ?s1 = Inr s2
         \<and> trace s2 = trace ?s1 @ Write [0x62, 0x02, 0, 1]
                         # (if h_pubrec_' ?s1 then [H_pubrec 1] else [])
         \<and> expected_for 1 (store_' s2) = [PUBCOMP]
         \<and> others 1 (store_' s2) = others 1 (store_' ?s1)"
    using C5_qos2_publish_flow [where s = ?s1 and p = 1 and a = 0 and b = 1,
      THEN conjunct2, THEN conjunct2, THEN conjunct1] s1(3)
    by (simp add: make_uint16_t_0_1)
  then obtain s2 where s2: "handle_pubrec ?s1 = Inr s2"
    "trace s2 = trace ?s1 @ Write [0x62, 0x02, 0, 1] # (if h_pubrec_' ?s1 then [H_pubrec 1] else [])"
    "expected_for 1 (store_' s2) = [PUBCOMP]"
    by blast
  let ?s2 = "s2\<lparr>remaining_length_' := 2, payload_' := [0, 1]\<rparr>"
  have "\<exists>s3. handle_pubcomp ?s2 = Inr s3
          \<and> trace s3 = trace ?s2 @ (if h_pubcomp_' ?s2 then [H_pubcomp 1] else [])
          \<and> expected_for 1 (store_' s3) = []
          \<and> others 1 (store_' s3) = others 1 (store_' ?s2)"
    using C5_qos2_publish_flow [where s = ?s2 and p = 1 and a = 0 and b = 1,
      THEN conjunct2, THEN conjunct2, THEN conjunct2] s2(3)
    by (simp add: make_uint16_t_0_1)
  then obtain s3 where s3: "handle_pubcomp ?s2 = Inr s3" "1 \<notin> packet_ids (store_' s3)"
    by (auto simp add: expected_for_empty_iff)
  have h: "\<not> h_pubrec_' ?s1"
    using s1(1) publish_exactly_once_id_example by (simp add: new_endpoint_def)
  have w: "written s2 = [[0x34, 0x07, 0x00, 0x01, 0x74, 0x00, 0x01, 0x68, 0x69],
                      [0x62, 0x02, 0x00, 0x01]]"
    using s2(2) s1(2) h
    by (simp add: written_def b frame_def remaining_bytes_of_small make_fixed_header_def
        publish_flags_def new_endpoint_def)
  let ?s1' = "(new_endpoint True)
       \<lparr>store_' := [\<lparr>packet_id' = 1, expected_control_packet_type' = PUBREC,
                     buf' = Some [0, 0, 0, 0x3C, 0x07, 0x00, 0x01, 0x74, 0x00, 0x01, 0x68, 0x69],
                     ptr' = 3, size' = 9\<rparr>],
        packet_id_master_' := 1,
        trace := [Write [0x34, 0x07, 0x00, 0x01, 0x74, 0x00, 0x01, 0x68, 0x69]]\<rparr>"
  have "expected_for 1 (store_' ?s1') = [PUBREC]"
    by (rule C5_qos2_publish_flow [where s = "new_endpoint True" and p = 1 and topic_name = "[0x74]"
      and ivc = "\<lambda>_. True" and contents = "[0x68, 0x69]" and retain = False
      and ?s1.0 = ?s1',
      THEN conjunct2, THEN conjunct1, rule_format, OF publish_exactly_once_example])
  with publish_exactly_once_example
  have "\<exists>s1'. publish_exactly_once (\<lambda>_. True) [0x74] [0x68, 0x69] False (new_endpoint True)
       = Some (Inr (1, s1')) \<and> expected_for 1 (store_' s1') = [PUBREC]"
    by blast
  with s1 s2 s3 w show ?thesis by blast
qed

text \<open>
  The claim as stated fails: the endpoint publishes at QoS 2 with packet id 1, sends a
  SUBACK for the packet id 1 of its peer (which stores an element for 1 expecting SUBACK),
  then reads PUBREC and PUBCOMP for 1. The exchange is complete and the store still holds
  an element for the packet id 1.
\<close>

theorem C5_counterexample:
  "publish_exactly_once_id (\<lambda>_. True) 1 [0x74] [0x68, 0x69] False (new_endpoint True)
     = Inr (True, qos2_sender [stored_publish]
                    [Write [0x34, 0x07, 0x00, 0x01, 0x74, 0x00, 0x01, 0x68, 0x69]])
   \<and> send_suback [0x00] 1
       (qos2_sender [stored_publish]
          [Write [0x34, 0x07, 0x00, 0x01, 0x74, 0x00, 0x01, 0x68, 0x69]])
     = Inr (qos2_sender [stored_publish, store2 1 SUBACK]
              [Write [0x34, 0x07, 0x00, 0x01, 0x74, 0x00, 0x01, 0x68, 0x69],
               Write [0x90, 0x03, 0x00, 0x01, 0x00]])
   \<and> async_read_control_packet_type [0x50, 0x02, 0x00, 0x01]
       (qos2_sender [stored_publish, store2 1 SUBACK]
          [Write [0x34, 0x07, 0x00, 0x01, 0x74, 0x00, 0x01, 0x68, 0x69],
           Write [0x90, 0x03, 0x00, 0x01, 0x00]])
     = Payload []
         (ack_received 0x50 [stored_publish, store2 1 SUBACK]
            [Write [0x34, 0x07, 0x00, 0x01, 0x74, 0x00, 0x01, 0x68, 0x69],
             Write [0x90, 0x03, 0x00, 0x01, 0x00]])
   \<and> handle_pubrec
       (ack_received 0x50 [stored_publish, store2 1 SUBACK]
          [Write [0x34, 0x07, 0x00, 0x01, 0x74, 0x00, 0x01, 0x68, 0x69],
           Write [0x90, 0x03, 0x00, 0x01, 0x00]])
     = Inr (ack_received 0x50 [store2 1 SUBACK, stored_pubrel]
              [Write [0x34, 0x07, 0x00, 0x01, 0x74, 0x00, 0x01, 0x68, 0x69],
               Write [0x90, 0x03, 0x00, 0x01, 0x00],
               Write [0x62, 0x02, 0x00, 0x01]])
   \<and> async_read_control_packet_type [0x70, 0x02, 0x00, 0x01]
       (ack_received 0x50 [store2 1 SUBACK, stored_pubrel]
          [Write [0x34, 0x07, 0x00, 0x01, 0x74, 0x00, 0x01, 0x68, 0x69],
           Write [0x90, 0x03, 0x00, 0x01, 0x00],
           Write [0x62, 0x02, 0x00, 0x01]])
     = Payload []
         (ack_received 0x70 [store2 1 SUBACK, stored_pubrel]
            [Write [0x34, 0x07, 0x00, 0x01, 0x74, 0x00, 0x01, 0x68, 0x69],
             Write [0x90, 0x03, 0x00, 0x01, 0x00],
             Write [0x62, 0x02, 0x00, 0x01]])
   \<and> handle_pubcomp
       (ack_received 0x70 [store2 1 SUBACK, stored_pubrel]
          [Write [0x34, 0x07, 0x00, 0x01, 0x74, 0x00, 0x01, 0x68, 0x69],
           Write [0x90, 0x03, 0x00, 0x01, 0x00],
           Write [0x62, 0x02, 0x00, 0x01]])
     = Inr (ack_received 0x70 [store2 1 SUBACK]
              [Write [0x34, 0x07, 0x00, 0x01, 0x74, 0x00, 0x01, 0x68, 0x69],
               Write [0x90, 0x03, 0x00, 0x01, 0x00],
               Write [0x62, 0x02, 0x00, 0x01]])
   \<and> expected_for 1
       (store_' (ack_received 0x70 [store2 1 SUBACK]
          [Write [0x34, 0x07, 0x00, 0x01, 0x74, 0x00, 0x01, 0x68, 0x69],
           Write [0x90, 0x03, 0x00, 0x01, 0x00],
           Write [0x62, 0x02, 0x00, 0x01]]))
     = [SUBACK]
   \<and> 1 \<in> packet_ids
       (store_' (ack_received 0x70 [store2 1 SUBACK]
          [Write [0x34, 0x07, 0x00, 0x01, 0x74, 0x00, 0x01, 0x68, 0x69],
           Write [0x90, 0x03, 0x00, 0x01, 0x00],
           Write [0x62, 0x02, 0x00, 0x01]]))"
proof -
  have e: "expected_for 1 (store_' (ack_received 0x70 [store2 1 SUBACK] tr)) = [SUBACK]"
    "1 \<in> packet_ids (store_' (ack_received 0x70 [store2 1 SUBACK] tr))" for tr
    by (simp_all add: ack_received_def expected_for_def packet_ids_def store2_def)
  show ?thesis
    using
      qos2_exchange_with_suback(2)
        [of "[Write [0x34, 0x07, 0x00, 0x01, 0x74, 0x00, 0x01, 0x68, 0x69]]"]
      qos2_exchange_with_suback(4)
        [of "[Write [0x34, 0x07, 0x00, 0x01, 0x74, 0x00, 0x01, 0x68, 0x69],
              Write [0x90, 0x03, 0x00, 0x01, 0x00]]"]
    by (simp add: qos2_exchange_with_suback(1,3,5,6) e)
qed

subsection \<open>C6: packet ids are nonzero and fresh\<close>

text \<open>
  C6. A packet id that \<open>create_unique_packet_id\<close> returns is not 0 and not in the
  store, and the allocation changes nothing but the counter. An operation with a manual
  packet id returns \<open>False\<close> and leaves the endpoint as it is (nothing is sent) when the
  id is 0 or in the store. Hence every publish, subscribe and unsubscribe, with a manual or
  an allocated id \<open>p\<close>, leaves the store as it is or appends one element under \<open>p\<close>,
  with \<open>p\<close> nonzero and absent before: packet ids that are unique and nonzero in the
  store stay so.
\<close>

theorem C6_packet_ids_fresh:
  "(create_unique_packet_id s = Some (p, s') \<longrightarrow>
      p \<noteq> 0 \<and> p \<notin> packet_ids (store_' s) \<and> s' = s\<lparr>packet_id_master_' := p\<rparr>)
   \<and> (p = 0 \<or> p \<in> packet_ids (store_' s) \<longrightarrow>
        publish_at_least_once_id ivc p topic_name contents retain s = Inr (False, s)
      \<and> publish_exactly_once_id ivc p topic_name contents retain s = Inr (False, s)
      \<and> publish_id ivc p topic_name contents qos retain s = Inr (False, s)
      \<and> subscribe_id ivc p topic_name sqos sargs s = Inr (False, s)
      \<and> unsubscribe_id ivc p topic_name uargs s = Inr (False, s))
   \<and> (publish_at_least_once_id ivc p topic_name contents retain s = Inr (b, s')
      \<or> publish_exactly_once_id ivc p topic_name contents retain s = Inr (b, s')
      \<or> publish_id ivc p topic_name contents qos retain s = Inr (b, s')
      \<or> subscribe_id ivc p topic_name sqos sargs s = Inr (b, s')
      \<or> unsubscribe_id ivc p topic_name uargs s = Inr (b, s')
      \<or> publish_at_least_once ivc topic_name contents retain s = Some (Inr (p, s'))
      \<or> publish_exactly_once ivc topic_name contents retain s = Some (Inr (p, s'))
      \<or> publish ivc topic_name contents qos retain s = Some (Inr (p, s'))
      \<or> subscribe ivc topic_name sqos sargs s = Some (Inr (p, s'))
      \<or> unsubscribe ivc topic_name uargs s = Some (Inr (p, s'))
      \<longrightarrow> stores_fresh (store_' s) p (store_' s')
          \<and> (unique_nonzero_ids (store_' s) \<longrightarrow> unique_nonzero_ids (store_' s')))"
proof (intro conjI impI)
  assume "create_unique_packet_id s = Some (p, s')"
  from create_unique_packet_id_result [OF this]
  show "p \<noteq> 0" "p \<notin> packet_ids (store_' s)" "s' = s\<lparr>packet_id_master_' := p\<rparr>"
    by (simp_all add: is_unique_packet_id_iff)
next
  assume a: "p = 0 \<or> p \<in> packet_ids (store_' s)"
  show "publish_at_least_once_id ivc p topic_name contents retain s = Inr (False, s)"
    "publish_exactly_once_id ivc p topic_name contents retain s = Inr (False, s)"
    "publish_id ivc p topic_name contents qos retain s = Inr (False, s)"
    "subscribe_id ivc p topic_name sqos sargs s = Inr (False, s)"
    "unsubscribe_id ivc p topic_name uargs s = Inr (False, s)"
    by (rule manual_refuses [OF a])+
next
  assume "publish_at_least_once_id ivc p topic_name contents retain s = Inr (b, s')
      \<or> publish_exactly_once_id ivc p topic_name contents retain s = Inr (b, s')
      \<or> publish_id ivc p topic_name contents qos retain s = Inr (b, s')
      \<or> subscribe_id ivc p topic_name sqos sargs s = Inr (b, s')
      \<or> unsubscribe_id ivc p topic_name uargs s = Inr (b, s')
      \<or> publish_at_least_once ivc topic_name contents retain s = Some (Inr (p, s'))
      \<or> publish_exactly_once ivc topic_name contents retain s = Some (Inr (p, s'))
      \<or> publish ivc topic_name contents qos retain s = Some (Inr (p, s'))
      \<or> subscribe ivc topic_name sqos sargs s = Some (Inr (p, s'))
      \<or> unsubscribe ivc topic_name uargs s = Some (Inr (p, s'))"
  then show f: "stores_fresh (store_' s) p (store_' s')"
    by (elim disjE) (erule manual_stores_fresh auto_stores_fresh)+
  assume "unique_nonzero_ids (store_' s)"
  then show "unique_nonzero_ids (store_' s')"
    using f by (rule stores_fresh_unique_nonzero_ids)
qed

theorem C6_witness:
  "create_unique_packet_id (new_endpoint True)
     = Some (1, (new_endpoint True)\<lparr>packet_id_master_' := 1\<rparr>)
   \<and> 1 \<notin> packet_ids (store_' (new_endpoint True))
   \<and> publish_id (\<lambda>_. True) 0 [0x74] [0x68, 0x69] 2 False (new_endpoint True)
       = Inr (False, new_endpoint True)
   \<and> (\<exists>s'. publish_exactly_once_id (\<lambda>_. True) 1 [0x74] [0x68, 0x69] False (new_endpoint True)
              = Inr (True, s')
            \<and> map packet_id' (store_' s') = [1]
            \<and> unique_nonzero_ids (store_' s'))"
proof -
  have r: "create_unique_packet_id (new_endpoint True)
       = Some (1, (new_endpoint True)\<lparr>packet_id_master_' := 1\<rparr>)"
    by (subst create_unique_packet_id.simps)
      (simp add: Let_def is_unique_packet_id_def new_endpoint_def)
  have a: "1 \<notin> packet_ids (store_' (new_endpoint True))"
    using C6_packet_ids_fresh [of "new_endpoint True" 1 "(new_endpoint True)\<lparr>packet_id_master_' := 1\<rparr>"] r
    by simp
  have b: "publish_id (\<lambda>_. True) 0 [0x74] [0x68, 0x69] 2 False (new_endpoint True)
       = Inr (False, new_endpoint True)"
    using C6_packet_ids_fresh [of "new_endpoint True" 0] by simp
  have u: "unique_nonzero_ids (store_' (new_endpoint True))"
    by (simp add: unique_nonzero_ids_def packet_ids_def new_endpoint_def)
  have c: "unique_nonzero_ids (store_' s')"
    if "publish_exactly_once_id (\<lambda>_. True) 1 [0x74] [0x68, 0x69] False (new_endpoint True)
        = Inr (True, s')" for s'
    using C6_packet_ids_fresh [of "new_endpoint True" 1 s' "\<lambda>_. True" "[0x74]" "[0x68, 0x69]" False _ _ _ _ True]
      that u
    by simp
  show ?thesis
    using r a b c [OF publish_exactly_once_id_example] publish_exactly_once_id_example
    by simp
qed

subsection \<open>C7: the flags of the fixed header\<close>

text \<open>
  C7 (the code departs from the claim). The claim: every packet other than PUBLISH,
  PUBREL, SUBSCRIBE and UNSUBSCRIBE is written with the low nibble 0000. \<open>send_unsuback\<close>
  writes the first byte B2 for every packet id: the kind is 11, UNSUBACK, and the low
  nibble is 0010.
\<close>

theorem C7_send_unsuback_low_nibble:
  "send_unsuback packet_id s
     = Inr (as_write [0xB2, 0x02, ucast (drop_bit 8 packet_id), ucast (packet_id AND 0xff)]
              (s\<lparr>store_' := emplace (store2 packet_id UNSUBACK) (store_' s)\<rparr>))
   \<and> get_control_packet_type 0xB2 = type_code UNSUBACK
   \<and> low_nibble 0xB2 = 0b0010"
  by (simp add: send_unsuback_eq get_control_packet_type_def low_nibble_def)

theorem C7_witness:
  "map_sum id written (send_unsuback 1 (new_endpoint True))
   = Inr [[0xB2, 0x02, 0x00, 0x01]]"
  using C7_send_unsuback_low_nibble [of 1 "new_endpoint True"]
  by (simp add: written_def as_write_def new_endpoint_def)

subsection \<open>C8: CONNACK and the in-flight store\<close>

text \<open>
  C8. On a CONNACK with return code accepted the store is emptied when the clean session
  flag is set; otherwise every element with a buffer is written to the socket, in store
  order, and kept, and every element without a buffer is erased. The bytes stored for a
  PUBLISH with QoS above 0 are the bytes written at send time with the DUP bit set in the
  first byte; the bytes stored for a PUBREL are the bytes written. The connack handler is
  called afterwards when one is set.
\<close>

theorem C8_connack_resend:
  "(remaining_length_' s = 2 \<and> payload_' s = [sp, accepted] \<longrightarrow>
      handle_connack s
      = Inr (call (h_connack_' s) (H_connack (is_session_present sp) accepted)
          (if clean_session_' s then s\<lparr>store_' := []\<rparr>
           else s\<lparr>store_' := filter (\<lambda>e. buf' e \<noteq> None) (store_' s),
                  trace := trace s @ map (\<lambda>e. Write (stored_bytes e))
                                       (filter (\<lambda>e. buf' e \<noteq> None) (store_' s))\<rparr>)))
   \<and> (is_valid_length topic_name \<and> ivc topic_name
      \<and> length (publish_body topic_name qos p payload) \<le> 268435455
      \<and> qos > 0 \<and> p \<notin> packet_ids (store_' s) \<longrightarrow>
      (\<exists>s1 e fr. send_publish ivc topic_name qos retain p payload s = Inr s1
           \<and> trace s1 = trace s @ [Write fr]
           \<and> store_' s1 = store_' s @ [e]
           \<and> buf' e \<noteq> None
           \<and> stored_bytes e = (hd fr OR 0b00001000) # tl fr
           \<and> is_dup (hd (stored_bytes e))))
   \<and> (p \<notin> packet_ids (store_' s) \<longrightarrow>
      (\<exists>s1 e fr. send_pubrel p s = Inr s1
           \<and> trace s1 = trace s @ [Write fr]
           \<and> store_' s1 = store_' s @ [e]
           \<and> buf' e \<noteq> None
           \<and> stored_bytes e = fr
           \<and> fr = [0x62, 0x02, ucast (drop_bit 8 p), ucast (p AND 0xff)]))"
  using handle_connack_accepted [of s sp]
    send_publish_stored_copy [of topic_name ivc qos p payload s retain]
    send_pubrel_stored_copy [of p s]
  by blast

theorem C8_witness:
  "map_sum id (\<lambda>s. (written s, map packet_id' (store_' s)))
     (handle_connack (connack_received False))
   = Inr ([[0x3A, 0x05, 0x00, 0x01, 0x74, 0x00, 0x01], [0x62, 0x02, 0x00, 0x03]], [1, 3])
   \<and> map_sum id (\<lambda>s. (written s, store_' s)) (handle_connack (connack_received True))
     = Inr ([], [])
   \<and> (\<exists>s1 e fr. send_publish (\<lambda>_. True) [0x74] 1 False 1 [] (new_endpoint True) = Inr s1
         \<and> trace s1 = [Write fr] \<and> store_' s1 = [e] \<and> buf' e \<noteq> None
         \<and> stored_bytes e = (hd fr OR 0b00001000) # tl fr \<and> is_dup (hd (stored_bytes e)))
   \<and> (\<exists>s1 e. send_pubrel 3 (new_endpoint True) = Inr s1
         \<and> trace s1 = [Write [0x62, 0x02, 0x00, 0x03]] \<and> store_' s1 = [e]
         \<and> buf' e \<noteq> None \<and> stored_bytes e = [0x62, 0x02, 0x00, 0x03])"
proof -
  have a: "map_sum id (\<lambda>s. (written s, map packet_id' (store_' s)))
     (handle_connack (connack_received False))
   = Inr ([[0x3A, 0x05, 0x00, 0x01, 0x74, 0x00, 0x01], [0x62, 0x02, 0x00, 0x03]], [1, 3])"
    using C8_connack_resend [where s = "connack_received False" and sp = 0, THEN conjunct1]
    by (simp add: connack_received_def new_endpoint_def accepted_def call_def written_def
        stored_bytes_def buffer_def store2_def)
  have b: "map_sum id (\<lambda>s. (written s, store_' s)) (handle_connack (connack_received True))
     = Inr ([], [])"
    using C8_connack_resend [where s = "connack_received True" and sp = 0, THEN conjunct1]
    by (simp add: connack_received_def new_endpoint_def accepted_def call_def written_def)
  have c: "\<exists>s1 e fr. send_publish (\<lambda>_. True) [0x74] 1 False 1 [] (new_endpoint True) = Inr s1
         \<and> trace s1 = [Write fr] \<and> store_' s1 = [e] \<and> buf' e \<noteq> None
         \<and> stored_bytes e = (hd fr OR 0b00001000) # tl fr \<and> is_dup (hd (stored_bytes e))"
    using C8_connack_resend [where s = "new_endpoint True" and topic_name = "[0x74]"
        and ivc = "\<lambda>_. True" and qos = 1 and p = 1 and payload = "[]" and retain = False,
        THEN conjunct2, THEN conjunct1]
    by (simp add: is_valid_length_def publish_body_def encoded_length_def packet_ids_def
        new_endpoint_def)
  have d: "\<exists>s1 e. send_pubrel 3 (new_endpoint True) = Inr s1
         \<and> trace s1 = [Write [0x62, 0x02, 0x00, 0x03]] \<and> store_' s1 = [e]
         \<and> buf' e \<noteq> None \<and> stored_bytes e = [0x62, 0x02, 0x00, 0x03]"
    using C8_connack_resend [where s = "new_endpoint True" and p = 3,
        THEN conjunct2, THEN conjunct2]
    by (auto simp add: packet_ids_def new_endpoint_def)
  from a b c d show ?thesis by blast
qed

subsection \<open>C9: the keep-alive timer\<close>

text \<open>
  C9 (amended). A successful \<open>connect\<close> with a nonzero ping interval arms the timer for
  the interval. Each expiry of the timer writes exactly one PINGREQ and arms the timer
  again for the same interval, counted from the time of the expiry handler; a cancelled
  wait writes nothing. No send function of the endpoint touches the timer: the PINGREQs
  are written every ping interval, whatever else is sent in between.
\<close>

theorem C9_keep_alive_timer:
  "handle_timer now success c
     = Inr ((as_write [0xC0, 0x00] c)
              \<lparr>tim_' := \<lparr>expiry = now + ping_duration_ms_' c, waiting = True\<rparr>\<rparr>)
   \<and> (ec \<noteq> success \<longrightarrow> handle_timer now ec c = Inr c)
   \<and> (ping_duration_ms_' c \<noteq> 0 \<and> connect ivc now success c = Inr c1 \<longrightarrow>
        tim_' c1 = \<lparr>expiry = now + ping_duration_ms_' c, waiting = True\<rparr> \<and> connected_' c1
        \<and> ping_duration_ms_' c1 = ping_duration_ms_' c)
   \<and> (send_publish ivc topic_name qos retain p payload c = Inr c1
        \<or> send_subscribe ivc params p c = Inr c1
        \<or> send_unsubscribe ivc topics p c = Inr c1
        \<or> send_puback p c = Inr c1
        \<or> send_pubrec p c = Inr c1
        \<or> send_pubrel p c = Inr c1
        \<or> send_pubcomp p c = Inr c1 \<longrightarrow>
        tim_' c1 = tim_' c \<and> ping_duration_ms_' c1 = ping_duration_ms_' c)"
proof (intro conjI impI)
  show "handle_timer now success c
     = Inr ((as_write [0xC0, 0x00] c)
              \<lparr>tim_' := \<lparr>expiry = now + ping_duration_ms_' c, waiting = True\<rparr>\<rparr>)"
    by (rule handle_timer_success)
next
  assume "ec \<noteq> success"
  then show "handle_timer now ec c = Inr c" by (rule handle_timer_error)
next
  assume a: "ping_duration_ms_' c \<noteq> 0 \<and> connect ivc now success c = Inr c1"
  then have "ping_duration_ms_' c \<noteq> 0" "connect ivc now success c = Inr c1" by blast+
  from connect_arms_timer [OF this]
  show "tim_' c1 = \<lparr>expiry = now + ping_duration_ms_' c, waiting = True\<rparr>"
    "connected_' c1" "ping_duration_ms_' c1 = ping_duration_ms_' c"
    by blast+
next
  assume a: "send_publish ivc topic_name qos retain p payload c = Inr c1
        \<or> send_subscribe ivc params p c = Inr c1
        \<or> send_unsubscribe ivc topics p c = Inr c1
        \<or> send_puback p c = Inr c1
        \<or> send_pubrec p c = Inr c1
        \<or> send_pubrel p c = Inr c1
        \<or> send_pubcomp p c = Inr c1"
  then have "tim_' c1 = tim_' c \<and> ping_duration_ms_' c1 = ping_duration_ms_' c"
    by (elim disjE) (erule send_keeps_timer)+
  then show "tim_' c1 = tim_' c" "ping_duration_ms_' c1 = ping_duration_ms_' c"
    by blast+
qed

theorem C9_witness:
  "(\<exists>c1. connect (\<lambda>_. True) 0 success keep_alive_client = Inr c1
      \<and> tim_' c1 = \<lparr>expiry = 1000, waiting = True\<rparr>
      \<and> map_sum id (\<lambda>c. (written c, tim_' c)) (handle_timer 1000 success c1)
        = Inr ([[0x10, 0x0C, 0x00, 0x04, 0x4D, 0x51, 0x54, 0x54, 0x04, 0x00, 0x00, 0x0A,
                 0x00, 0x00], [0xC0, 0x00]], \<lparr>expiry = 2000, waiting = True\<rparr>)
      \<and> handle_timer 1000 operation_aborted c1 = Inr c1
      \<and> map_sum id tim_' (send_puback 1 c1) = Inr \<lparr>expiry = 1000, waiting = True\<rparr>)"
proof -
  let ?c1 = "keep_alive_client
       \<lparr>connected_' := True,
        trace := [Write [0x10, 0x0C, 0x00, 0x04, 0x4D, 0x51, 0x54, 0x54, 0x04, 0x00, 0x00, 0x0A,
                         0x00, 0x00]],
        tim_' := \<lparr>expiry = 1000, waiting = True\<rparr>\<rparr>"
  have p: "ping_duration_ms_' keep_alive_client = 1000"
    by (simp add: keep_alive_client_def set_keep_alive_sec_ping_ms_def new_client_def)
  have t: "tim_' ?c1 = \<lparr>expiry = 1000, waiting = True\<rparr>"
    using C9_keep_alive_timer [where c = keep_alive_client and ivc = "\<lambda>_. True" and now = 0
        and ?c1.0 = ?c1, THEN conjunct2, THEN conjunct2, THEN conjunct1]
      connect_keep_alive_client p
    by simp
  have h: "map_sum id (\<lambda>c. (written c, tim_' c)) (handle_timer 1000 success ?c1)
        = Inr ([[0x10, 0x0C, 0x00, 0x04, 0x4D, 0x51, 0x54, 0x54, 0x04, 0x00, 0x00, 0x0A,
                 0x00, 0x00], [0xC0, 0x00]], \<lparr>expiry = 2000, waiting = True\<rparr>)"
    using C9_keep_alive_timer [where c = ?c1 and now = 1000, THEN conjunct1] p
    by (simp add: written_def as_write_def)
  have e: "handle_timer 1000 operation_aborted ?c1 = Inr ?c1"
    using C9_keep_alive_timer [where c = ?c1 and now = 1000 and ec = operation_aborted,
        THEN conjunct2, THEN conjunct1]
    by simp
  have s: "map_sum id tim_' (send_puback 1 ?c1) = Inr \<lparr>expiry = 1000, waiting = True\<rparr>"
    using C9_keep_alive_timer [where c = ?c1 and p = 1
        and ?c1.0 = "as_write [0x40, 0x02, 0x00, 0x01] ?c1",
        THEN conjunct2, THEN conjunct2, THEN conjunct2]
    by (simp add: send_puback_eq as_write_def)
  from connect_keep_alive_client t h e s show ?thesis by blast
qed

text \<open>
  The claim as stated fails. The client connects at time 0 with a ping interval of
  1000 ms and then publishes; the send functions read no clock, so whenever the PUBLISH is
  written, the timer still expires at time 1000, and its expiry at 1000 writes a PINGREQ
  although a packet went out less than a full interval before.
\<close>

theorem C9_counterexample:
  "map_sum id (\<lambda>c. (written c, tim_' c))
     (then_do (connect (\<lambda>_. True) 0 success keep_alive_client)
        (publish_at_most_once (\<lambda>_. True) [0x74] [0x68, 0x69] False))
   = Inr ([[0x10, 0x0C, 0x00, 0x04, 0x4D, 0x51, 0x54, 0x54, 0x04, 0x00, 0x00, 0x0A, 0x00, 0x00],
           [0x30, 0x05, 0x00, 0x01, 0x74, 0x68, 0x69]],
          \<lparr>expiry = 1000, waiting = True\<rparr>)
   \<and> map_sum id (\<lambda>c. (written c, tim_' c))
     (then_do
        (then_do (connect (\<lambda>_. True) 0 success keep_alive_client)
           (publish_at_most_once (\<lambda>_. True) [0x74] [0x68, 0x69] False))
        (handle_timer 1000 success))
   = Inr ([[0x10, 0x0C, 0x00, 0x04, 0x4D, 0x51, 0x54, 0x54, 0x04, 0x00, 0x00, 0x0A, 0x00, 0x00],
           [0x30, 0x05, 0x00, 0x01, 0x74, 0x68, 0x69],
           [0xC0, 0x00]],
          \<lparr>expiry = 2000, waiting = True\<rparr>)"
proof -
  have p: "ping_duration_ms_' keep_alive_client = 1000"
    by (simp add: keep_alive_client_def set_keep_alive_sec_ping_ms_def new_client_def)
  show ?thesis
    by (simp add: then_do_def connect_keep_alive_client publish_at_most_once_example
        handle_timer_success written_def as_write_def p)
qed

subsection \<open>C10: the allocation loop\<close>

text \<open>
  C10. \<open>create_unique_packet_id\<close> returns, with a nonzero id that is not in the store,
  whenever some nonzero 16-bit id is not in the store, in particular when the store holds
  fewer than 65535 distinct ids. When every nonzero id is in the store the loop never
  ends: the result is \<open>None\<close>, not an error.
\<close>

theorem C10_create_unique_packet_id_returns:
  "((\<exists>u. u \<noteq> 0 \<and> u \<notin> packet_ids (store_' s)) \<longrightarrow>
      (\<exists>p. create_unique_packet_id s = Some (p, s\<lparr>packet_id_master_' := p\<rparr>)
           \<and> p \<noteq> 0 \<and> p \<notin> packet_ids (store_' s)))
   \<and> (card (packet_ids (store_' s)) < 65535 \<longrightarrow>
      (\<exists>p. create_unique_packet_id s = Some (p, s\<lparr>packet_id_master_' := p\<rparr>)
           \<and> p \<noteq> 0 \<and> p \<notin> packet_ids (store_' s)))
   \<and> ((\<forall>u. u \<noteq> 0 \<longrightarrow> u \<in> packet_ids (store_' s)) \<longrightarrow>
      create_unique_packet_id s = None)"
proof -
  have a: "\<exists>p. create_unique_packet_id s = Some (p, s\<lparr>packet_id_master_' := p\<rparr>)
             \<and> p \<noteq> 0 \<and> p \<notin> packet_ids (store_' s)"
    if "u \<noteq> 0" "u \<notin> packet_ids (store_' s)" for u
  proof -
    from create_unique_packet_id_returns [OF that] obtain y
      where y: "create_unique_packet_id s = Some y" ..
    from create_unique_packet_id_result [OF y] have
      "is_unique_packet_id s (fst y)" "y = (fst y, s\<lparr>packet_id_master_' := fst y\<rparr>)"
      by (simp_all add: prod_eq_iff)
    with y show ?thesis by (auto simp add: is_unique_packet_id_iff)
  qed
  show ?thesis
    using a unused_id_exists [of "store_' s"] create_unique_packet_id_diverges [of s]
    by blast
qed

theorem C10_witness:
  "card (packet_ids (store_' (new_endpoint True))) < 65535
   \<and> create_unique_packet_id (new_endpoint True)
       = Some (1, (new_endpoint True)\<lparr>packet_id_master_' := 1\<rparr>)
   \<and> create_unique_packet_id ((new_endpoint True)\<lparr>store_' := full_store\<rparr>) = None"
proof -
  have c: "card (packet_ids (store_' (new_endpoint True))) < 65535"
    by (simp add: new_endpoint_def packet_ids_def)
  have r: "create_unique_packet_id (new_endpoint True)
       = Some (1, (new_endpoint True)\<lparr>packet_id_master_' := 1\<rparr>)"
    by (subst create_unique_packet_id.simps)
      (simp add: Let_def is_unique_packet_id_def new_endpoint_def)
  have n: "create_unique_packet_id ((new_endpoint True)\<lparr>store_' := full_store\<rparr>) = None"
    using C10_create_unique_packet_id_returns [of "(new_endpoint True)\<lparr>store_' := full_store\<rparr>"] full_store_ids by simp
  show ?thesis
    by (rule conjI [OF c conjI [OF r n]])
qed

end
